theory Spec2Isabelle
  imports Complex_Main
begin

section \<open>Configuration enumerations\<close>

text \<open>
  The two enumerations of \<^verbatim>\<open>helmholtz.py\<close>: the state variable set and the way phases
  are presented to the surrounding framework. Python floats are modelled as \<open>real\<close>
  throughout, phase labels and attribute names as strings.
\<close>

datatype StateVars = PH | TPX

datatype PhaseType = MIX | LG | L | G

section \<open>The parameter block\<close>

text \<open>
  \<^verbatim>\<open>HelmholtzParameterBlockData\<close>. The first record holds what exists before
  \<^verbatim>\<open>build\<close> runs: the two configuration options and the values stored by
  \<^verbatim>\<open>_set_parameters\<close> (the bounds triples play no role in what follows and are left
  out). The second record adds the attributes that \<^verbatim>\<open>build\<close> creates. Pyomo sets keep
  their insertion order, so a \<^verbatim>\<open>Set\<close> is a list of labels here.
\<close>

record ParameterConfig =
  phase_presentation :: PhaseType
  config_state_vars :: StateVars

record ParameterBlockInputs =
  config :: ParameterConfig
  plib :: string
  component_list :: "string list"
  mw :: real
  temperature_crit :: real
  pressure_crit :: real
  dens_mass_crit :: real
  specific_gas_constant :: real
  default_pressure_value :: real
  default_temperature_value :: real
  default_enthalpy_value :: real

record HelmholtzParameterBlockData = ParameterBlockInputs +
  available :: bool
  private_phase_list :: "string list"
  phase_list :: "string list"
  state_vars :: StateVars
  smoothing_pressure_over :: real
  smoothing_pressure_under :: real

text \<open>
  \<^verbatim>\<open>HelmholtzParameterBlockData.build\<close>. The result of \<^verbatim>\<open>_available(self.plib)\<close> (a test
  of the file system) is the argument \<open>avail\<close>.
\<close>

definition public_phase_list :: "PhaseType \<Rightarrow> string list" where
  "public_phase_list pp =
     (case pp of
        MIX \<Rightarrow> [''Mix'']
      | LG \<Rightarrow> [''Vap'', ''Liq'']
      | L \<Rightarrow> [''Liq'']
      | G \<Rightarrow> [''Vap''])"

definition parameter_build :: "bool \<Rightarrow> ParameterBlockInputs \<Rightarrow> HelmholtzParameterBlockData" where
  "parameter_build avail inp =
     ParameterBlockInputs.extend inp
       (HelmholtzParameterBlockData.fields
          avail
          [''Vap'', ''Liq'']
          (public_phase_list (phase_presentation (config inp)))
          (config_state_vars (config inp))
          (1 / 10000)
          (1 / 10000))"

text \<open>A parameter block for given options, constants as in \<open>inp\<close>.\<close>

definition configure :: "PhaseType \<Rightarrow> StateVars \<Rightarrow> bool \<Rightarrow> ParameterBlockInputs \<Rightarrow> HelmholtzParameterBlockData" where
  "configure pp sv avail inp =
     parameter_build avail
       (inp\<lparr>config := \<lparr>phase_presentation = pp, config_state_vars = sv\<rparr>\<rparr>)"

section \<open>Errors\<close>

text \<open>
  The exceptions that the modelled code can raise. A fallible function returns
  \<open>error + 'a\<close>, with \<open>Inl\<close> for the exception.
\<close>

datatype error = ConfigurationError | AttributeError | KeyError | IndexError | ZeroDivisionError

section \<open>Pyomo components\<close>

text \<open>
  A Pyomo \<^verbatim>\<open>Var\<close> carries a value and a fixed flag (its domain and bounds are not
  modelled: nothing below reads them). \<^verbatim>\<open>fix()\<close> sets the flag, \<^verbatim>\<open>fix(x)\<close> also sets the
  value, \<^verbatim>\<open>unfix()\<close> clears the flag.
\<close>

record var =
  val :: real
  fixed :: bool

text \<open>
  Expression trees, as the Python operators build them. A leaf refers to a \<^verbatim>\<open>Var\<close> or to a
  mutable \<^verbatim>\<open>Param\<close> by its attribute name, so that fixing or assigning the variable
  later does not change the tree. A named \<^verbatim>\<open>Expression\<close> used inside another expression
  is represented by its own tree. \<open>Ext1\<close> and \<open>Ext2\<close> are calls of an
  \<^verbatim>\<open>ExternalFunction\<close> of the compiled library, by the library's function name;
  \<open>SmoothMax\<close> is a call of \<^verbatim>\<open>idaes.core.util.math.smooth_max\<close>. \<open>NoExpr\<close> is the entry
  of an indexed expression whose rule returned \<^verbatim>\<open>None\<close>, or a read at an index that is
  not there.
\<close>

datatype expr =
    Num real
  | VarRef string
  | ParamRef string
  | Add expr expr
  | Sub expr expr
  | Mul expr expr
  | Div expr expr
  | Ext1 string expr
  | Ext2 string expr expr
  | SmoothMax expr expr expr
  | NoExpr

text \<open>
  What lies outside the source files is a parameter of evaluation: the external functions
  of the compiled library, by name, and \<^verbatim>\<open>smooth_max\<close>.
\<close>

record kernel =
  ext1 :: "string \<Rightarrow> real \<Rightarrow> real"
  ext2 :: "string \<Rightarrow> real \<Rightarrow> real \<Rightarrow> real"
  smooth_max :: "real \<Rightarrow> real \<Rightarrow> real \<Rightarrow> real"

text \<open>
  \<^verbatim>\<open>pyomo.environ.value\<close> of an expression, for a kernel \<open>K\<close> and a store \<open>s\<close> giving the
  current value of every variable and parameter. A division by zero raises in Python;
  here it is \<open>None\<close>, as is the value of \<open>NoExpr\<close>.
\<close>

definition lift2 :: "(real \<Rightarrow> real \<Rightarrow> real) \<Rightarrow> real option \<Rightarrow> real option \<Rightarrow> real option" where
  "lift2 f a b = (case a of None \<Rightarrow> None | Some x \<Rightarrow> (case b of None \<Rightarrow> None | Some y \<Rightarrow> Some (f x y)))"

definition div_value :: "real option \<Rightarrow> real option \<Rightarrow> real option" where
  "div_value a b =
     (case a of None \<Rightarrow> None
      | Some x \<Rightarrow> (case b of None \<Rightarrow> None
                  | Some y \<Rightarrow> if y = 0 then None else Some (x / y)))"

fun value_e :: "kernel \<Rightarrow> (string \<Rightarrow> real) \<Rightarrow> expr \<Rightarrow> real option" where
  "value_e K s (Num c) = Some c"
| "value_e K s (VarRef n) = Some (s n)"
| "value_e K s (ParamRef n) = Some (s n)"
| "value_e K s (Add a b) = lift2 (\<lambda>x y. x + y) (value_e K s a) (value_e K s b)"
| "value_e K s (Sub a b) = lift2 (\<lambda>x y. x - y) (value_e K s a) (value_e K s b)"
| "value_e K s (Mul a b) = lift2 (\<lambda>x y. x * y) (value_e K s a) (value_e K s b)"
| "value_e K s (Div a b) = div_value (value_e K s a) (value_e K s b)"
| "value_e K s (Ext1 f a) = map_option (ext1 K f) (value_e K s a)"
| "value_e K s (Ext2 f a b) = lift2 (ext2 K f) (value_e K s a) (value_e K s b)"
| "value_e K s (SmoothMax a b c) =
     (case value_e K s a of None \<Rightarrow> None
      | Some x \<Rightarrow> lift2 (smooth_max K x) (value_e K s b) (value_e K s c))"
| "value_e K s NoExpr = None"

text \<open>
  An attribute of a state block that holds a state quantity is a \<^verbatim>\<open>Var\<close> in one mode and
  an \<^verbatim>\<open>Expression\<close> in the other.
\<close>

datatype component = VarC var | ExprC expr

text \<open>The node an attribute contributes when it is used inside an expression.\<close>

definition as_expr :: "string \<Rightarrow> component \<Rightarrow> expr" where
  "as_expr name c = (case c of VarC v \<Rightarrow> VarRef name | ExprC e \<Rightarrow> e)"

text \<open>
  \<^verbatim>\<open>c.fixed\<close>, \<^verbatim>\<open>c.fix()\<close>, \<^verbatim>\<open>c.fix(x)\<close>, \<^verbatim>\<open>c.unfix()\<close> and \<^verbatim>\<open>c.value = x\<close>: they exist on a
  \<^verbatim>\<open>Var\<close> only.
\<close>

definition get_fixed :: "component \<Rightarrow> error + bool" where
  "get_fixed c = (case c of VarC v \<Rightarrow> Inr (fixed v) | ExprC e \<Rightarrow> Inl AttributeError)"

definition fix_var :: "component \<Rightarrow> error + component" where
  "fix_var c = (case c of VarC v \<Rightarrow> Inr (VarC (v\<lparr>fixed := True\<rparr>)) | ExprC e \<Rightarrow> Inl AttributeError)"

definition fix_to :: "real \<Rightarrow> component \<Rightarrow> error + component" where
  "fix_to x c =
     (case c of VarC v \<Rightarrow> Inr (VarC (v\<lparr>val := x, fixed := True\<rparr>)) | ExprC e \<Rightarrow> Inl AttributeError)"

definition unfix_var :: "component \<Rightarrow> error + component" where
  "unfix_var c = (case c of VarC v \<Rightarrow> Inr (VarC (v\<lparr>fixed := False\<rparr>)) | ExprC e \<Rightarrow> Inl AttributeError)"

definition set_value :: "real \<Rightarrow> component \<Rightarrow> component" where
  "set_value x c = (case c of VarC v \<Rightarrow> VarC (v\<lparr>val := x\<rparr>) | ExprC e \<Rightarrow> ExprC e)"

text \<open>An equality constraint \<^verbatim>\<open>Constraint(expr= lhs == rhs)\<close> and its activity flag.\<close>

record constraint =
  lhs :: expr
  rhs :: expr
  active :: bool

text \<open>
  An indexed \<^verbatim>\<open>Expression(index_set, rule=r)\<close> is the list of its entries in the order of
  the index set; \<open>idx\<close> reads one entry. Python's \<^verbatim>\<open>sum\<close> starts from \<open>0\<close> and adds from
  the left.
\<close>

definition indexed :: "string list \<Rightarrow> (string \<Rightarrow> expr) \<Rightarrow> (string \<times> expr) list" where
  "indexed index_set rule = map (\<lambda>p. (p, rule p)) index_set"

definition idx :: "(string \<times> expr) list \<Rightarrow> string \<Rightarrow> expr" where
  "idx xs p = (case map_of xs p of Some e \<Rightarrow> e | None \<Rightarrow> NoExpr)"

definition py_sum :: "expr list \<Rightarrow> expr" where
  "py_sum xs = foldl Add (Num 0) xs"

section \<open>The state block\<close>

text \<open>
  The configuration of a state block: its parameter block and the \<^verbatim>\<open>defined_state\<close> flag of
  the framework's \<^verbatim>\<open>StateBlockData\<close>.
\<close>

record BlockConfig =
  parameters :: HelmholtzParameterBlockData
  defined_state :: bool

text \<open>
  Keys of the \<^verbatim>\<open>scaling_expression\<close> suffix: a scalar component by its attribute name, or
  one entry of an indexed component. (The numeric \<^verbatim>\<open>scaling_factor\<close> suffix is not
  modelled.)
\<close>

datatype comp_key = Scalar string | Indexed string string

subsection \<open>\<^verbatim>\<open>_state_vars\<close>\<close>

text \<open>
  The attributes \<^verbatim>\<open>_state_vars\<close> creates. \<^verbatim>\<open>enth_mol\<close> is created here in PH mode only; in
  TPX mode \<^verbatim>\<open>build\<close> defines it later.
\<close>

record StateVarsAttrs =
  sv_flow_mol :: component
  sv_pressure :: component
  sv_enth_mol :: "component option"
  sv_temperature :: component
  sv_vapor_frac :: component

definition new_var :: "real \<Rightarrow> component" where
  "new_var x = VarC \<lparr>val = x, fixed = False\<rparr>"

definition state_vars_build :: "HelmholtzParameterBlockData \<Rightarrow> StateVarsAttrs" where
  "state_vars_build params =
     (let flow_mol_v = new_var 1 in
      case state_vars params of
        PH \<Rightarrow>
          (let pressure_v = new_var (default_pressure_value params);
               enth_mol_v = new_var (default_enthalpy_value params);
               P = Div (as_expr ''pressure'' pressure_v) (Num 1000);
               h_mass = Div (Div (as_expr ''enth_mol'' enth_mol_v) (Num (mw params))) (Num 1000);
               phase_set = phase_presentation (config params);
               temperature_x = ExprC (Div (Num (temperature_crit params)) (Ext2 ''tau'' h_mass P));
               vapor_frac_x =
                 (case phase_set of
                    MIX \<Rightarrow> ExprC (Ext2 ''vf'' h_mass P)
                  | LG \<Rightarrow> ExprC (Ext2 ''vf'' h_mass P)
                  | L \<Rightarrow> ExprC (Num 0)
                  | G \<Rightarrow> ExprC (Num 1))
           in \<lparr>sv_flow_mol = flow_mol_v, sv_pressure = pressure_v, sv_enth_mol = Some enth_mol_v,
               sv_temperature = temperature_x, sv_vapor_frac = vapor_frac_x\<rparr>)
      | TPX \<Rightarrow>
          (let temperature_v = new_var (default_temperature_value params);
               pressure_v = new_var (default_pressure_value params);
               vapor_frac_v = new_var 0
           in \<lparr>sv_flow_mol = flow_mol_v, sv_pressure = pressure_v, sv_enth_mol = None,
               sv_temperature = temperature_v, sv_vapor_frac = vapor_frac_v\<rparr>))"

subsection \<open>Phase densities and phase equilibrium\<close>

text \<open>
  What the phase step of \<^verbatim>\<open>build\<close> leaves on the block: in PH mode the two density
  expressions, in TPX mode everything \<^verbatim>\<open>_tpx_phase_eq\<close> creates, and the vapor fraction
  as \<^verbatim>\<open>_tpx_phase_eq\<close> may have fixed it.
\<close>

record PhaseEq =
  pe_P_under_sat :: "expr option"
  pe_P_over_sat :: "expr option"
  pe_dens_mass_phase :: "(string \<times> expr) list"
  pe_dens_phase_red :: "(string \<times> expr) list"
  pe_vapor_frac :: component
  pe_eq_complementarity :: "constraint option"
  pe_eq_sat :: "constraint option"
  pe_scaling_expression :: "(comp_key \<times> expr) list"

text \<open>The rules of \<^verbatim>\<open>_tpx_phase_eq\<close>.\<close>

definition tpx_rule_dens_mass :: "expr \<Rightarrow> expr \<Rightarrow> expr \<Rightarrow> expr \<Rightarrow> expr \<Rightarrow> string \<Rightarrow> expr" where
  "tpx_rule_dens_mass rhoc P P_under P_over tau_x p =
     (if p = ''Liq'' then Mul rhoc (Ext2 ''delta_liq'' (Add P P_under) tau_x)
      else Mul rhoc (Ext2 ''delta_vap'' (Sub P P_over) tau_x))"

definition rule_dens_red :: "expr \<Rightarrow> (string \<times> expr) list \<Rightarrow> string \<Rightarrow> expr" where
  "rule_dens_red rhoc dens_mass_phase_x p = Div (idx dens_mass_phase_x p) rhoc"

text \<open>
  \<^verbatim>\<open>_tpx_phase_eq\<close>. Its arguments after the configuration are the attributes of the block
  it reads: \<^verbatim>\<open>pressure\<close>, \<^verbatim>\<open>pressure_sat\<close>, \<^verbatim>\<open>vapor_frac\<close> and \<^verbatim>\<open>tau\<close>.
\<close>

definition tpx_phase_eq ::
  "BlockConfig \<Rightarrow> component \<Rightarrow> expr \<Rightarrow> component \<Rightarrow> expr \<Rightarrow> error + PhaseEq" where
  "tpx_phase_eq cfg pressure_c pressure_sat_x vapor_frac_c tau_x =
     (let eps_pu = ParamRef ''smoothing_pressure_under'';
          eps_po = ParamRef ''smoothing_pressure_over'';
          priv_plist = private_phase_list (parameters cfg);
          plist = phase_list (parameters cfg);
          rhoc = Num (dens_mass_crit (parameters cfg));
          P = Div (as_expr ''pressure'' pressure_c) (Num 1000);
          Psat = Div pressure_sat_x (Num 1000);
          vf = as_expr ''vapor_frac'' vapor_frac_c;
          P_under = SmoothMax (Num 0) (Sub Psat P) eps_pu;
          P_over = SmoothMax (Num 0) (Sub P Psat) eps_po;
          dens_mass = indexed priv_plist (tpx_rule_dens_mass rhoc P P_under P_over tau_x);
          dens_red = indexed priv_plist (rule_dens_red rhoc dens_mass);
          eq_sat_x = \<lparr>lhs = Div P (Num 1000), rhs = Div Psat (Num 1000), active = False\<rparr>;
          eq_sat_scale = (Scalar ''eq_sat'', Div (Num 1000) (as_expr ''pressure'' pressure_c));
          finish = (\<lambda>vfc comp scal.
            \<lparr>pe_P_under_sat = Some P_under, pe_P_over_sat = Some P_over,
             pe_dens_mass_phase = dens_mass, pe_dens_phase_red = dens_red,
             pe_vapor_frac = vfc, pe_eq_complementarity = comp,
             pe_eq_sat = Some eq_sat_x, pe_scaling_expression = scal @ [eq_sat_scale]\<rparr>)
      in if length plist = 1 then
           (case (if ''Vap'' \<in> set plist then fix_to 1 vapor_frac_c else fix_to 0 vapor_frac_c) of
              Inl e \<Rightarrow> Inl e
            | Inr vfc \<Rightarrow> Inr (finish vfc None []))
         else if \<not> defined_state cfg then
           Inr (finish vapor_frac_c
                  (Some \<lparr>lhs = Num 0,
                         rhs = Sub (Mul vf P_over) (Mul (Sub (Num 1) vf) P_under),
                         active = True\<rparr>)
                  [(Scalar ''eq_complementarity'', Div (Num 10) (as_expr ''pressure'' pressure_c))])
         else Inr (finish vapor_frac_c None []))"

text \<open>The PH branch of \<^verbatim>\<open>build\<close>: densities at the pressure itself.\<close>

definition rule_dens_mass :: "expr \<Rightarrow> expr \<Rightarrow> expr \<Rightarrow> string \<Rightarrow> expr" where
  "rule_dens_mass rhoc P tau_x p =
     (if p = ''Liq'' then Mul rhoc (Ext2 ''delta_liq'' P tau_x)
      else Mul rhoc (Ext2 ''delta_vap'' P tau_x))"

definition ph_phase_densities ::
  "HelmholtzParameterBlockData \<Rightarrow> expr \<Rightarrow> expr \<Rightarrow> component \<Rightarrow> PhaseEq" where
  "ph_phase_densities params P tau_x vapor_frac_c =
     (let phlist = private_phase_list params;
          rhoc = Num (dens_mass_crit params);
          dens_mass = indexed phlist (rule_dens_mass rhoc P tau_x);
          dens_red = indexed phlist (rule_dens_red rhoc dens_mass)
      in \<lparr>pe_P_under_sat = None, pe_P_over_sat = None,
          pe_dens_mass_phase = dens_mass, pe_dens_phase_red = dens_red,
          pe_vapor_frac = vapor_frac_c, pe_eq_complementarity = None,
          pe_eq_sat = None, pe_scaling_expression = []\<rparr>)"

subsection \<open>The rules of the derived property graph\<close>

definition rule_enth_mol_sat_phase :: "expr \<Rightarrow> expr \<Rightarrow> expr \<Rightarrow> string \<Rightarrow> expr" where
  "rule_enth_mol_sat_phase mw_x P tau_sat_x p =
     (if p = ''Liq'' then Mul (Mul (Num 1000) mw_x) (Ext2 ''hlpt'' P tau_sat_x)
      else if p = ''Vap'' then Mul (Mul (Num 1000) mw_x) (Ext2 ''hvpt'' P tau_sat_x)
      else NoExpr)"

text \<open>
  Internal energy, enthalpy, entropy and the heat capacities of a phase share one shape,
  \<^verbatim>\<open>1000 * mw * func(delta[p], tau)\<close>, with the function \<^verbatim>\<open>u\<close>, \<^verbatim>\<open>h\<close>, \<^verbatim>\<open>s\<close>, \<^verbatim>\<open>cp\<close> or
  \<^verbatim>\<open>cv\<close>; the speed of sound is \<^verbatim>\<open>func_w(delta[p], tau)\<close>.
\<close>

definition rule_mol_phase :: "string \<Rightarrow> expr \<Rightarrow> (string \<times> expr) list \<Rightarrow> expr \<Rightarrow> string \<Rightarrow> expr" where
  "rule_mol_phase func mw_x delta tau_x p =
     Mul (Mul (Num 1000) mw_x) (Ext2 func (idx delta p) tau_x)"

definition rule_speed_sound_phase :: "(string \<times> expr) list \<Rightarrow> expr \<Rightarrow> string \<Rightarrow> expr" where
  "rule_speed_sound_phase delta tau_x p = Ext2 ''w'' (idx delta p) tau_x"

definition rule_dens_mol_phase :: "(string \<times> expr) list \<Rightarrow> expr \<Rightarrow> string \<Rightarrow> expr" where
  "rule_dens_mol_phase dens_mass_phase_x mw_x p = Div (idx dens_mass_phase_x p) mw_x"

definition rule_phase_frac :: "expr \<Rightarrow> string \<Rightarrow> expr" where
  "rule_phase_frac vf p =
     (if p = ''Vap'' then vf
      else if p = ''Liq'' then Sub (Num 1) vf
      else NoExpr)"

text \<open>
  A mixture property that is a weighted sum over the private phase list, and one that is
  the reciprocal of a weighted sum of reciprocals
  (\<^verbatim>\<open>1.0 / sum(phase_frac[p] * 1.0 / dens[p] for p in phlist)\<close>).
\<close>

definition mixture_sum :: "string list \<Rightarrow> (string \<times> expr) list \<Rightarrow> (string \<times> expr) list \<Rightarrow> expr" where
  "mixture_sum phlist phase_frac_x prop =
     py_sum (map (\<lambda>p. Mul (idx phase_frac_x p) (idx prop p)) phlist)"

definition mixture_density :: "string list \<Rightarrow> (string \<times> expr) list \<Rightarrow> (string \<times> expr) list \<Rightarrow> expr" where
  "mixture_density phlist phase_frac_x dens =
     Div (Num 1) (py_sum (map (\<lambda>p. Div (Mul (idx phase_frac_x p) (Num 1)) (idx dens p)) phlist))"

text \<open>
  The three rules of the balance terms. Each returns the scaling expression it stores in
  \<^verbatim>\<open>scaling_expression\<close> for the entry, and the entry's expression.
\<close>

definition rule_material_flow_terms :: "expr \<Rightarrow> (string \<times> expr) list \<Rightarrow> string \<Rightarrow> expr \<times> expr" where
  "rule_material_flow_terms flow phase_frac_x p =
     (Div (Num 1) flow,
      if p = ''Mix'' then flow else Mul flow (idx phase_frac_x p))"

definition rule_enthalpy_flow_terms ::
  "expr \<Rightarrow> expr \<Rightarrow> (string \<times> expr) list \<Rightarrow> (string \<times> expr) list \<Rightarrow> string \<Rightarrow> expr \<times> expr" where
  "rule_enthalpy_flow_terms flow enth_mol_x enth_mol_phase_x phase_frac_x p =
     (if p = ''Mix'' then
        (Div (Num 1) (Mul enth_mol_x flow), Mul enth_mol_x flow)
      else
        (Div (Num 1) (Mul (Mul (idx enth_mol_phase_x p) (idx phase_frac_x p)) flow),
         Mul (Mul (idx enth_mol_phase_x p) (idx phase_frac_x p)) flow))"

definition rule_energy_density_terms ::
  "expr \<Rightarrow> expr \<Rightarrow> expr \<Rightarrow> (string \<times> expr) list \<Rightarrow> (string \<times> expr) list \<Rightarrow> string \<Rightarrow> expr \<times> expr" where
  "rule_energy_density_terms flow dens_mol_x energy_internal_mol_x dens_mol_phase_x
       energy_internal_mol_phase_x p =
     (if p = ''Mix'' then
        (Div (Num 1) (Mul energy_internal_mol_x flow), Mul dens_mol_x energy_internal_mol_x)
      else
        (Div (Num 1) (Mul (idx dens_mol_phase_x p) (idx energy_internal_mol_phase_x p)),
         Mul (idx dens_mol_phase_x p) (idx energy_internal_mol_phase_x p)))"

text \<open>The entries and the scaling entries of an indexed family built by such a rule.\<close>

definition term_entries :: "string list \<Rightarrow> (string \<Rightarrow> expr \<times> expr) \<Rightarrow> (string \<times> expr) list" where
  "term_entries index_set rule = indexed index_set (\<lambda>p. snd (rule p))"

definition scaling_entries :: "string \<Rightarrow> string list \<Rightarrow> (string \<Rightarrow> expr \<times> expr) \<Rightarrow> (comp_key \<times> expr) list" where
  "scaling_entries name index_set rule = map (\<lambda>p. (Indexed name p, fst (rule p))) index_set"

text \<open>
  The dictionary of state variables: each key with the name of the attribute it refers
  to.
\<close>

definition state_vars_dict_of :: "StateVars \<Rightarrow> PhaseType \<Rightarrow> (string \<times> string) list" where
  "state_vars_dict_of sv phase_set =
     (case sv of
        PH \<Rightarrow> [(''flow_mol'', ''flow_mol''), (''enth_mol'', ''enth_mol''), (''pressure'', ''pressure'')]
      | TPX \<Rightarrow>
          (case phase_set of
             MIX \<Rightarrow> [(''flow_mol'', ''flow_mol''), (''temperature'', ''temperature''),
                     (''pressure'', ''pressure''), (''vapor_frac'', ''vapor_frac'')]
           | LG \<Rightarrow> [(''flow_mol'', ''flow_mol''), (''temperature'', ''temperature''),
                    (''pressure'', ''pressure''), (''vapor_frac'', ''vapor_frac'')]
           | L \<Rightarrow> [(''flow_mol'', ''flow_mol''), (''temperature'', ''temperature''),
                   (''pressure'', ''pressure'')]
           | G \<Rightarrow> [(''flow_mol'', ''flow_mol''), (''temperature'', ''temperature''),
                   (''pressure'', ''pressure'')]))"

subsection \<open>\<^verbatim>\<open>HelmholtzStateBlockData.build\<close>\<close>

text \<open>
  The built state block. The attributes that alias constants of the parameter block
  (\<^verbatim>\<open>mw\<close>, \<^verbatim>\<open>temperature_crit\<close>, \<^verbatim>\<open>pressure_crit\<close>, \<^verbatim>\<open>dens_mass_crit\<close>) are read from
  \<open>parameters (block_config b)\<close>.
\<close>

record HelmholtzStateBlockData =
  block_config :: BlockConfig
  block_state_vars :: StateVars
  flow_mol :: component
  pressure :: component
  enth_mol :: component
  temperature :: component
  vapor_frac :: component
  temperature_sat :: expr
  tau_sat :: expr
  temperature_red :: expr
  tau :: expr
  pressure_sat :: expr
  P_under_sat :: "expr option"
  P_over_sat :: "expr option"
  dens_mass_phase :: "(string \<times> expr) list"
  dens_phase_red :: "(string \<times> expr) list"
  eq_complementarity :: "constraint option"
  eq_sat :: "constraint option"
  enth_mol_sat_phase :: "(string \<times> expr) list"
  dh_vap_mol :: expr
  energy_internal_mol_phase :: "(string \<times> expr) list"
  enth_mol_phase :: "(string \<times> expr) list"
  entr_mol_phase :: "(string \<times> expr) list"
  cp_mol_phase :: "(string \<times> expr) list"
  cv_mol_phase :: "(string \<times> expr) list"
  speed_sound_phase :: "(string \<times> expr) list"
  dens_mol_phase :: "(string \<times> expr) list"
  phase_frac :: "(string \<times> expr) list"
  flow_mol_comp :: "(string \<times> expr) list"
  energy_internal_mol :: expr
  entr_mol :: expr
  cp_mol :: expr
  cv_mol :: expr
  dens_mass :: expr
  dens_mol :: expr
  heat_capacity_ratio :: expr
  flow_vol :: expr
  flow_mass :: expr
  enth_mass :: expr
  state_vars_dict :: "(string \<times> string) list"
  material_flow_terms :: "(string \<times> expr) list"
  enthalpy_flow_terms :: "(string \<times> expr) list"
  energy_density_terms :: "(string \<times> expr) list"
  scaling_expression :: "(comp_key \<times> expr) list"

text \<open>
  The part of \<^verbatim>\<open>build\<close> after the phase step: the derived property graph, the state
  variable dictionary and the balance terms.
\<close>

definition derived_graph ::
  "BlockConfig \<Rightarrow> StateVarsAttrs \<Rightarrow> expr \<Rightarrow> expr \<Rightarrow> expr \<Rightarrow> expr \<Rightarrow> expr \<Rightarrow> PhaseEq
     \<Rightarrow> HelmholtzStateBlockData" where
  "derived_graph cfg sv temperature_sat_x tau_sat_x temperature_red_x tau_x pressure_sat_x pe =
     (let params = parameters cfg;
          phlist = private_phase_list params;
          pub_phlist = phase_list params;
          phase_set = phase_presentation (config params);
          mw_x = Num (mw params);
          P = Div (as_expr ''pressure'' (sv_pressure sv)) (Num 1000);
          vf = as_expr ''vapor_frac'' (sv_vapor_frac sv);
          flow = as_expr ''flow_mol'' (sv_flow_mol sv);
          delta = pe_dens_phase_red pe;
          enth_mol_sat_phase_x = indexed phlist (rule_enth_mol_sat_phase mw_x P tau_sat_x);
          dh_vap_mol_x = Sub (idx enth_mol_sat_phase_x ''Vap'') (idx enth_mol_sat_phase_x ''Liq'');
          energy_internal_mol_phase_x = indexed phlist (rule_mol_phase ''u'' mw_x delta tau_x);
          enth_mol_phase_x = indexed phlist (rule_mol_phase ''h'' mw_x delta tau_x);
          entr_mol_phase_x = indexed phlist (rule_mol_phase ''s'' mw_x delta tau_x);
          cp_mol_phase_x = indexed phlist (rule_mol_phase ''cp'' mw_x delta tau_x);
          cv_mol_phase_x = indexed phlist (rule_mol_phase ''cv'' mw_x delta tau_x);
          speed_sound_phase_x = indexed phlist (rule_speed_sound_phase delta tau_x);
          dens_mol_phase_x = indexed phlist (rule_dens_mol_phase (pe_dens_mass_phase pe) mw_x);
          phase_frac_x = indexed phlist (rule_phase_frac vf);
          flow_mol_comp_x = indexed (component_list params) (\<lambda>i. flow);
          enth_mol_c =
            (case sv_enth_mol sv of
               Some c \<Rightarrow> c
             | None \<Rightarrow> ExprC (mixture_sum phlist phase_frac_x enth_mol_phase_x));
          enth_mol_x = as_expr ''enth_mol'' enth_mol_c;
          energy_internal_mol_x = mixture_sum phlist phase_frac_x energy_internal_mol_phase_x;
          entr_mol_x = mixture_sum phlist phase_frac_x entr_mol_phase_x;
          cp_mol_x = mixture_sum phlist phase_frac_x cp_mol_phase_x;
          cv_mol_x = mixture_sum phlist phase_frac_x cv_mol_phase_x;
          dens_mass_x = mixture_density phlist phase_frac_x (pe_dens_mass_phase pe);
          dens_mol_x = mixture_density phlist phase_frac_x dens_mol_phase_x;
          material = rule_material_flow_terms flow phase_frac_x;
          enthalpy = rule_enthalpy_flow_terms flow enth_mol_x enth_mol_phase_x phase_frac_x;
          energy = rule_energy_density_terms flow dens_mol_x energy_internal_mol_x
                     dens_mol_phase_x energy_internal_mol_phase_x
      in \<lparr>block_config = cfg,
          block_state_vars = state_vars params,
          flow_mol = sv_flow_mol sv,
          pressure = sv_pressure sv,
          enth_mol = enth_mol_c,
          temperature = sv_temperature sv,
          vapor_frac = pe_vapor_frac pe,
          temperature_sat = temperature_sat_x,
          tau_sat = tau_sat_x,
          temperature_red = temperature_red_x,
          tau = tau_x,
          pressure_sat = pressure_sat_x,
          P_under_sat = pe_P_under_sat pe,
          P_over_sat = pe_P_over_sat pe,
          dens_mass_phase = pe_dens_mass_phase pe,
          dens_phase_red = pe_dens_phase_red pe,
          eq_complementarity = pe_eq_complementarity pe,
          eq_sat = pe_eq_sat pe,
          enth_mol_sat_phase = enth_mol_sat_phase_x,
          dh_vap_mol = dh_vap_mol_x,
          energy_internal_mol_phase = energy_internal_mol_phase_x,
          enth_mol_phase = enth_mol_phase_x,
          entr_mol_phase = entr_mol_phase_x,
          cp_mol_phase = cp_mol_phase_x,
          cv_mol_phase = cv_mol_phase_x,
          speed_sound_phase = speed_sound_phase_x,
          dens_mol_phase = dens_mol_phase_x,
          phase_frac = phase_frac_x,
          flow_mol_comp = flow_mol_comp_x,
          energy_internal_mol = energy_internal_mol_x,
          entr_mol = entr_mol_x,
          cp_mol = cp_mol_x,
          cv_mol = cv_mol_x,
          dens_mass = dens_mass_x,
          dens_mol = dens_mol_x,
          heat_capacity_ratio = Div cp_mol_x cv_mol_x,
          flow_vol = Div flow dens_mol_x,
          flow_mass = Mul mw_x flow,
          enth_mass = Div enth_mol_x mw_x,
          state_vars_dict = state_vars_dict_of (state_vars params) phase_set,
          material_flow_terms = term_entries pub_phlist material,
          enthalpy_flow_terms = term_entries pub_phlist enthalpy,
          energy_density_terms = term_entries pub_phlist energy,
          scaling_expression =
            pe_scaling_expression pe
            @ scaling_entries ''material_flow_terms'' pub_phlist material
            @ scaling_entries ''enthalpy_flow_terms'' pub_phlist enthalpy
            @ scaling_entries ''energy_density_terms'' pub_phlist energy\<rparr>)"

text \<open>
  \<^verbatim>\<open>build\<close>: the state variables, the saturation expressions, the phase step (by state
  variable set), then the derived graph. The only step that can raise is the fixing of
  the vapor fraction inside \<^verbatim>\<open>_tpx_phase_eq\<close>.
\<close>

definition build :: "BlockConfig \<Rightarrow> error + HelmholtzStateBlockData" where
  "build cfg =
     (let params = parameters cfg;
          sv = state_vars_build params;
          Tc = Num (temperature_crit params);
          P = Div (as_expr ''pressure'' (sv_pressure sv)) (Num 1000);
          T = as_expr ''temperature'' (sv_temperature sv);
          temperature_sat_x = Div Tc (Ext1 ''tau_sat'' P);
          tau_sat_x = Ext1 ''tau_sat'' P;
          temperature_red_x = Div T Tc;
          tau_x = Div Tc T;
          pressure_sat_x = Mul (Num 1000) (Ext1 ''p_sat'' tau_x);
          phase_step =
            (case state_vars params of
               PH \<Rightarrow> Inr (ph_phase_densities params P tau_x (sv_vapor_frac sv))
             | TPX \<Rightarrow> tpx_phase_eq cfg (sv_pressure sv) pressure_sat_x (sv_vapor_frac sv) tau_x)
      in case phase_step of
           Inl e \<Rightarrow> Inl e
         | Inr pe \<Rightarrow>
             Inr (derived_graph cfg sv temperature_sat_x tau_sat_x temperature_red_x tau_x
                    pressure_sat_x pe))"

text \<open>\<^verbatim>\<open>define_state_vars\<close> returns the dictionary built above.\<close>

definition define_state_vars :: "HelmholtzStateBlockData \<Rightarrow> (string \<times> string) list" where
  "define_state_vars b = state_vars_dict b"

text \<open>The state block of a fluid for given options.\<close>

definition state_block ::
  "PhaseType \<Rightarrow> StateVars \<Rightarrow> bool \<Rightarrow> bool \<Rightarrow> ParameterBlockInputs \<Rightarrow> error + HelmholtzStateBlockData" where
  "state_block pp sv ds avail inp =
     build \<lparr>parameters = configure pp sv avail inp, defined_state = ds\<rparr>"

section \<open>The point conversion \<^verbatim>\<open>_htpx\<close>\<close>

text \<open>
  \<^verbatim>\<open>_htpx(T, prop, P, x, Tmin, Tmax, Pmin, Pmax)\<close>: an argument that may be \<^verbatim>\<open>None\<close> is an
  option. The four checks come first, in the order of the source, each raising
  \<^verbatim>\<open>ConfigurationError\<close>. After them \<^verbatim>\<open>prop\<close> is used: \<^verbatim>\<open>None\<close> has no attribute
  \<^verbatim>\<open>config\<close>. The external functions \<^verbatim>\<open>prop.func_tau_sat\<close>, \<^verbatim>\<open>prop.func_p_sat\<close>,
  \<^verbatim>\<open>prop.func_hlpt\<close> and \<^verbatim>\<open>prop.func_hvpt\<close> are those of the kernel \<open>K\<close>; \<^verbatim>\<open>prop.mw\<close>
  evaluates to the molecular weight of the parameter block. The divisions by the value
  of \<^verbatim>\<open>func_tau_sat\<close> and by \<^verbatim>\<open>T\<close> raise when the divisor is zero. Past the first check
  exactly one of \<open>P\<close> and \<open>x\<close> is given, so the case of \<open>x\<close> and \<open>P\<close> both absent in the
  last part is never reached.
\<close>

definition htpx ::
  "kernel \<Rightarrow> HelmholtzStateBlockData option \<Rightarrow> real \<Rightarrow> real option \<Rightarrow> real option
     \<Rightarrow> real \<Rightarrow> real \<Rightarrow> real \<Rightarrow> real \<Rightarrow> error + real" where
  "htpx K prop T P x Tmin Tmax Pmin Pmax =
     (if \<not> ((P = None) \<noteq> (x = None)) then Inl ConfigurationError
      else if \<not> (Tmin \<le> T \<and> T \<le> Tmax) then Inl ConfigurationError
      else if (case P of None \<Rightarrow> False | Some p \<Rightarrow> \<not> (Pmin \<le> p \<and> p \<le> Pmax))
        then Inl ConfigurationError
      else if (case x of None \<Rightarrow> False | Some v \<Rightarrow> \<not> (0 \<le> v \<and> v \<le> 1))
        then Inl ConfigurationError
      else
        (case prop of
           None \<Rightarrow> Inl AttributeError
         | Some b \<Rightarrow>
             (let param = parameters (block_config b);
                  Tc = temperature_crit param;
                  Pc = pressure_crit param;
                  mw_v = mw param
              in case x of
                   None \<Rightarrow>
                     (case P of
                        None \<Rightarrow> Inl ConfigurationError
                      | Some p \<Rightarrow>
                          (let tau_s = ext1 K ''tau_sat'' (p / 1000) in
                           if tau_s = 0 then Inl ZeroDivisionError
                           else
                             (let Tsat = Tc / tau_s in
                              if T < Tsat \<or> p > Pc then
                                (if T = 0 then Inl ZeroDivisionError
                                 else Inr (ext2 K ''hlpt'' (p / 1000) (Tc / T) * mw_v * 1000))
                              else
                                (if T = 0 then Inl ZeroDivisionError
                                 else Inr (ext2 K ''hvpt'' (p / 1000) (Tc / T) * mw_v * 1000)))))
                 | Some v \<Rightarrow>
                     (if T = 0 then Inl ZeroDivisionError
                      else
                        (let Psat = ext1 K ''p_sat'' (Tc / T) in
                         Inr (ext2 K ''hlpt'' Psat (Tc / T) * mw_v * 1000 * (1 - v)
                              + ext2 K ''hvpt'' Psat (Tc / T) * mw_v * 1000 * v))))))"

text \<open>The call with the default bounds \<^verbatim>\<open>Tmin=200, Tmax=1200, Pmin=1, Pmax=1e9\<close>.\<close>

definition htpx_default ::
  "kernel \<Rightarrow> HelmholtzStateBlockData option \<Rightarrow> real \<Rightarrow> real option \<Rightarrow> real option \<Rightarrow> error + real" where
  "htpx_default K prop T P x = htpx K prop T P x 200 1200 1 1000000000"

section \<open>Holding and releasing the state of a collection of blocks\<close>

text \<open>
  \<^verbatim>\<open>_StateBlock\<close> is an indexed block: a dictionary from indices to state blocks, here the
  list of its items in iteration order. The dictionary of flags that \<^verbatim>\<open>initialize\<close> returns
  is a list of items too, a tuple of flags being a list of booleans. Python mutates the
  blocks in place; the model returns the new collection, and an exception returns no
  collection.
\<close>

definition bind_e :: "error + 'a \<Rightarrow> ('a \<Rightarrow> error + 'b) \<Rightarrow> error + 'b" where
  "bind_e m f = (case m of Inl e \<Rightarrow> Inl e | Inr a \<Rightarrow> f a)"

text \<open>\<^verbatim>\<open>_set_fixed(v, f)\<close>.\<close>

definition set_fixed :: "component \<Rightarrow> bool \<Rightarrow> error + component" where
  "set_fixed v f = (if f then fix_var v else unfix_var v)"

text \<open>
  One of the guarded assignments of \<^verbatim>\<open>initialize\<close>:
  \<^verbatim>\<open>if not v.c.fixed: try: v.c.value = state_args[key] except KeyError: pass\<close>, run only
  when \<^verbatim>\<open>state_args\<close> is not \<^verbatim>\<open>None\<close>.
\<close>

definition assign_state_arg :: "(string \<rightharpoonup> real) option \<Rightarrow> string \<Rightarrow> component \<Rightarrow> error + component" where
  "assign_state_arg state_args key c =
     (case state_args of
        None \<Rightarrow> Inr c
      | Some args \<Rightarrow>
          bind_e (get_fixed c) (\<lambda>f.
            if \<not> f then (case args key of Some x \<Rightarrow> Inr (set_value x c) | None \<Rightarrow> Inr c)
            else Inr c))"

text \<open>\<^verbatim>\<open>if hold_state: v.c.fix()\<close>.\<close>

definition hold_var :: "bool \<Rightarrow> component \<Rightarrow> error + component" where
  "hold_var hold_state c = (if hold_state then fix_var c else Inr c)"

text \<open>
  The body of the first loop of \<^verbatim>\<open>initialize\<close> for one block \<open>v\<close>: the tuple of flags, then
  the assignments from \<^verbatim>\<open>state_args\<close>, then the fixing.
\<close>

definition initialize_PH ::
  "(string \<rightharpoonup> real) option \<Rightarrow> bool \<Rightarrow> HelmholtzStateBlockData \<Rightarrow> error + (bool list \<times> HelmholtzStateBlockData)" where
  "initialize_PH state_args hold_state v =
     bind_e (get_fixed (flow_mol v)) (\<lambda>f0.
     bind_e (get_fixed (enth_mol v)) (\<lambda>f1.
     bind_e (get_fixed (pressure v)) (\<lambda>f2.
     bind_e (assign_state_arg state_args ''flow_mol'' (flow_mol v)) (\<lambda>c0.
     bind_e (assign_state_arg state_args ''enth_mol'' (enth_mol v)) (\<lambda>c1.
     bind_e (assign_state_arg state_args ''pressure'' (pressure v)) (\<lambda>c2.
     bind_e (hold_var hold_state c0) (\<lambda>d0.
     bind_e (hold_var hold_state c1) (\<lambda>d1.
     bind_e (hold_var hold_state c2) (\<lambda>d2.
       Inr ([f0, f1, f2], v\<lparr>flow_mol := d0, enth_mol := d1, pressure := d2\<rparr>))))))))))"

definition initialize_TPX4 ::
  "(string \<rightharpoonup> real) option \<Rightarrow> bool \<Rightarrow> HelmholtzStateBlockData \<Rightarrow> error + (bool list \<times> HelmholtzStateBlockData)" where
  "initialize_TPX4 state_args hold_state v =
     bind_e (get_fixed (flow_mol v)) (\<lambda>f0.
     bind_e (get_fixed (temperature v)) (\<lambda>f1.
     bind_e (get_fixed (pressure v)) (\<lambda>f2.
     bind_e (get_fixed (vapor_frac v)) (\<lambda>f3.
     bind_e (assign_state_arg state_args ''flow_mol'' (flow_mol v)) (\<lambda>c0.
     bind_e (assign_state_arg state_args ''temperature'' (temperature v)) (\<lambda>c1.
     bind_e (assign_state_arg state_args ''pressure'' (pressure v)) (\<lambda>c2.
     bind_e (assign_state_arg state_args ''vapor_frac'' (vapor_frac v)) (\<lambda>c3.
     bind_e (hold_var hold_state c0) (\<lambda>d0.
     bind_e (hold_var hold_state c1) (\<lambda>d1.
     bind_e (hold_var hold_state c2) (\<lambda>d2.
     bind_e (hold_var hold_state c3) (\<lambda>d3.
       Inr ([f0, f1, f2, f3],
            v\<lparr>flow_mol := d0, temperature := d1, pressure := d2, vapor_frac := d3\<rparr>)))))))))))))"

definition initialize_TPX3 ::
  "(string \<rightharpoonup> real) option \<Rightarrow> bool \<Rightarrow> HelmholtzStateBlockData \<Rightarrow> error + (bool list \<times> HelmholtzStateBlockData)" where
  "initialize_TPX3 state_args hold_state v =
     bind_e (get_fixed (flow_mol v)) (\<lambda>f0.
     bind_e (get_fixed (temperature v)) (\<lambda>f1.
     bind_e (get_fixed (pressure v)) (\<lambda>f2.
     bind_e (assign_state_arg state_args ''flow_mol'' (flow_mol v)) (\<lambda>c0.
     bind_e (assign_state_arg state_args ''temperature'' (temperature v)) (\<lambda>c1.
     bind_e (assign_state_arg state_args ''pressure'' (pressure v)) (\<lambda>c2.
     bind_e (hold_var hold_state c0) (\<lambda>d0.
     bind_e (hold_var hold_state c1) (\<lambda>d1.
     bind_e (hold_var hold_state c2) (\<lambda>d2.
       Inr ([f0, f1, f2], v\<lparr>flow_mol := d0, temperature := d1, pressure := d2\<rparr>))))))))))"

definition initialize_item ::
  "(string \<rightharpoonup> real) option \<Rightarrow> bool \<Rightarrow> HelmholtzStateBlockData \<Rightarrow> error + (bool list \<times> HelmholtzStateBlockData)" where
  "initialize_item state_args hold_state v =
     (let pp = phase_presentation (config (parameters (block_config v))) in
      case block_state_vars v of
        PH \<Rightarrow> initialize_PH state_args hold_state v
      | TPX \<Rightarrow>
          if pp = MIX \<or> pp = LG then initialize_TPX4 state_args hold_state v
          else initialize_TPX3 state_args hold_state v)"

text \<open>
  \<^verbatim>\<open>_StateBlock.initialize\<close> with its keyword arguments \<^verbatim>\<open>state_args\<close> and \<^verbatim>\<open>hold_state\<close>.
  The second loop calls \<^verbatim>\<open>HelmholtzStateBlockData.initialize\<close> on every block, which does
  nothing.
\<close>

fun initialize ::
  "(string \<rightharpoonup> real) option \<Rightarrow> bool \<Rightarrow> ('i \<times> HelmholtzStateBlockData) list
     \<Rightarrow> error + (('i \<times> bool list) list \<times> ('i \<times> HelmholtzStateBlockData) list)" where
  "initialize state_args hold_state [] = Inr ([], [])"
| "initialize state_args hold_state ((i, v) # rest) =
     bind_e (initialize_item state_args hold_state v) (\<lambda>(f, v').
     bind_e (initialize state_args hold_state rest) (\<lambda>(flags, rest').
       Inr ((i, f) # flags, (i, v') # rest')))"

text \<open>
  \<^verbatim>\<open>release_state\<close>. \<open>flag f n\<close> is \<^verbatim>\<open>f[n]\<close>, \<open>block_at\<close> is \<^verbatim>\<open>self[i]\<close> and \<open>put_block\<close> stores
  the changed block under its index.
\<close>

definition flag :: "bool list \<Rightarrow> nat \<Rightarrow> error + bool" where
  "flag f n = (if n < length f then Inr (f ! n) else Inl IndexError)"

definition block_at :: "('i \<times> HelmholtzStateBlockData) list \<Rightarrow> 'i \<Rightarrow> error + HelmholtzStateBlockData" where
  "block_at blocks i = (case map_of blocks i of None \<Rightarrow> Inl KeyError | Some b \<Rightarrow> Inr b)"

definition put_block ::
  "'i \<Rightarrow> HelmholtzStateBlockData \<Rightarrow> ('i \<times> HelmholtzStateBlockData) list \<Rightarrow> ('i \<times> HelmholtzStateBlockData) list" where
  "put_block i b blocks = map (\<lambda>(k, old). if k = i then (k, b) else (k, old)) blocks"

definition release_item :: "HelmholtzStateBlockData \<Rightarrow> bool list \<Rightarrow> error + HelmholtzStateBlockData" where
  "release_item b f =
     (let pp = phase_presentation (config (parameters (block_config b))) in
      case block_state_vars b of
        PH \<Rightarrow>
          bind_e (flag f 0) (\<lambda>g0. bind_e (set_fixed (flow_mol b) g0) (\<lambda>c0.
          bind_e (flag f 1) (\<lambda>g1. bind_e (set_fixed (enth_mol b) g1) (\<lambda>c1.
          bind_e (flag f 2) (\<lambda>g2. bind_e (set_fixed (pressure b) g2) (\<lambda>c2.
            Inr (b\<lparr>flow_mol := c0, enth_mol := c1, pressure := c2\<rparr>)))))))
      | TPX \<Rightarrow>
          bind_e (flag f 0) (\<lambda>g0. bind_e (set_fixed (flow_mol b) g0) (\<lambda>c0.
          bind_e (flag f 1) (\<lambda>g1. bind_e (set_fixed (temperature b) g1) (\<lambda>c1.
          bind_e (flag f 2) (\<lambda>g2. bind_e (set_fixed (pressure b) g2) (\<lambda>c2.
            if pp = MIX \<or> pp = LG then
              bind_e (flag f 3) (\<lambda>g3. bind_e (set_fixed (vapor_frac b) g3) (\<lambda>c3.
                Inr (b\<lparr>flow_mol := c0, temperature := c1, pressure := c2, vapor_frac := c3\<rparr>)))
            else Inr (b\<lparr>flow_mol := c0, temperature := c1, pressure := c2\<rparr>))))))))"

fun release_state ::
  "('i \<times> HelmholtzStateBlockData) list \<Rightarrow> ('i \<times> bool list) list
     \<Rightarrow> error + ('i \<times> HelmholtzStateBlockData) list" where
  "release_state blocks [] = Inr blocks"
| "release_state blocks ((i, f) # flags) =
     bind_e (block_at blocks i) (\<lambda>b.
     bind_e (release_item b f) (\<lambda>b'.
       release_state (put_block i b' blocks) flags))"

text \<open>
  The fixed status of the five state quantities of a block, \<open>None\<close> for one that is an
  expression, and the shape \<^verbatim>\<open>build\<close> gives a block: the quantities that are variables
  in its mode.
\<close>

definition fixed_of :: "component \<Rightarrow> bool option" where
  "fixed_of c = (case c of VarC v \<Rightarrow> Some (fixed v) | ExprC e \<Rightarrow> None)"

definition fixed_status :: "HelmholtzStateBlockData \<Rightarrow> bool option list" where
  "fixed_status b =
     [fixed_of (flow_mol b), fixed_of (enth_mol b), fixed_of (pressure b),
      fixed_of (temperature b), fixed_of (vapor_frac b)]"

definition is_var :: "component \<Rightarrow> bool" where
  "is_var c = (case c of VarC v \<Rightarrow> True | ExprC e \<Rightarrow> False)"

definition has_state_vars :: "HelmholtzStateBlockData \<Rightarrow> bool" where
  "has_state_vars b =
     (case block_state_vars b of
        PH \<Rightarrow> is_var (flow_mol b) \<and> is_var (enth_mol b) \<and> is_var (pressure b)
      | TPX \<Rightarrow> is_var (flow_mol b) \<and> is_var (temperature b) \<and> is_var (pressure b)
               \<and> is_var (vapor_frac b))"

text \<open>The entries of a scaling suffix that belong to scalar components.\<close>

definition scalar_keys :: "(comp_key \<times> expr) list \<Rightarrow> bool" where
  "scalar_keys xs = list_all (\<lambda>(k, e). case k of Scalar n \<Rightarrow> True | Indexed n p \<Rightarrow> False) xs"

section \<open>Concrete inputs\<close>

text \<open>
  Inputs at which the theorems below are instantiated: the constants of water, a kernel
  whose functions are simple arithmetic, a store of variable and parameter values, and a
  kernel and store at which the phase mole densities are 500 and 5 and the vapor
  fraction is 0.3.
\<close>

definition demo_inputs :: ParameterBlockInputs where
  "demo_inputs =
     \<lparr>config = \<lparr>phase_presentation = MIX, config_state_vars = PH\<rparr>,
      plib = ''iapws95_external.so'',
      component_list = [''H2O''],
      mw = 1801528 / 100000000,
      temperature_crit = 647096 / 1000,
      pressure_crit = 22064000,
      dens_mass_crit = 322,
      specific_gas_constant = 46151805 / 1000000,
      default_pressure_value = 100000,
      default_temperature_value = 300,
      default_enthalpy_value = 1000\<rparr>"

definition demo_kernel :: kernel where
  "demo_kernel =
     \<lparr>ext1 = (\<lambda>f x. x),
      ext2 = (\<lambda>f x y. x + y),
      smooth_max = (\<lambda>a b e. max a b)\<rparr>"

definition demo_store :: "string \<Rightarrow> real" where
  "demo_store n =
     (if n = ''temperature'' then 300
      else if n = ''pressure'' then 101325
      else if n = ''flow_mol'' then 2
      else if n = ''vapor_frac'' then 1 / 4
      else 1 / 10000)"

definition density_kernel :: kernel where
  "density_kernel =
     \<lparr>ext1 = (\<lambda>f x. x),
      ext2 = (\<lambda>f x y.
        if f = ''delta_liq'' then 500 * (1801528 / 100000000) / 322
        else if f = ''delta_vap'' then 5 * (1801528 / 100000000) / 322
        else x + y),
      smooth_max = (\<lambda>a b e. max a b)\<rparr>"

definition density_store :: "string \<Rightarrow> real" where
  "density_store n = (if n = ''vapor_frac'' then 3 / 10 else demo_store n)"

section \<open>Facts about the parameter block and the build\<close>

lemmas param_defs = configure_def parameter_build_def ParameterBlockInputs.defs
  HelmholtzParameterBlockData.defs

lemma configure_phase_list [simp]:
  "phase_list (configure pp sv avail inp) = public_phase_list pp"
  by (simp add: param_defs)

lemma configure_private_phase_list [simp]:
  "private_phase_list (configure pp sv avail inp) = [''Vap'', ''Liq'']"
  by (simp add: param_defs)

lemma configure_state_vars [simp]:
  "state_vars (configure pp sv avail inp) = sv"
  by (simp add: param_defs)

lemma configure_phase_presentation [simp]:
  "phase_presentation (config (configure pp sv avail inp)) = pp"
  by (simp add: param_defs)

lemma configure_constants [simp]:
  "mw (configure pp sv avail inp) = mw inp"
  "temperature_crit (configure pp sv avail inp) = temperature_crit inp"
  "pressure_crit (configure pp sv avail inp) = pressure_crit inp"
  "dens_mass_crit (configure pp sv avail inp) = dens_mass_crit inp"
  "component_list (configure pp sv avail inp) = component_list inp"
  "default_pressure_value (configure pp sv avail inp) = default_pressure_value inp"
  "default_temperature_value (configure pp sv avail inp) = default_temperature_value inp"
  "default_enthalpy_value (configure pp sv avail inp) = default_enthalpy_value inp"
  by (simp_all add: param_defs)

lemma public_phase_list_simps [simp]:
  "public_phase_list MIX = [''Mix'']"
  "public_phase_list LG = [''Vap'', ''Liq'']"
  "public_phase_list L = [''Liq'']"
  "public_phase_list G = [''Vap'']"
  by (simp_all add: public_phase_list_def)

text \<open>What each attribute of the built block is, in terms of the steps before it.\<close>

lemma dg_fields:
  "vapor_frac (derived_graph cfg sv a1 a2 a3 a4 a5 pe) = pe_vapor_frac pe"
  "eq_complementarity (derived_graph cfg sv a1 a2 a3 a4 a5 pe) = pe_eq_complementarity pe"
  "P_under_sat (derived_graph cfg sv a1 a2 a3 a4 a5 pe) = pe_P_under_sat pe"
  "P_over_sat (derived_graph cfg sv a1 a2 a3 a4 a5 pe) = pe_P_over_sat pe"
  "dens_mass_phase (derived_graph cfg sv a1 a2 a3 a4 a5 pe) = pe_dens_mass_phase pe"
  "flow_mol (derived_graph cfg sv a1 a2 a3 a4 a5 pe) = sv_flow_mol sv"
  "pressure (derived_graph cfg sv a1 a2 a3 a4 a5 pe) = sv_pressure sv"
  "temperature (derived_graph cfg sv a1 a2 a3 a4 a5 pe) = sv_temperature sv"
  "block_config (derived_graph cfg sv a1 a2 a3 a4 a5 pe) = cfg"
  "block_state_vars (derived_graph cfg sv a1 a2 a3 a4 a5 pe) = state_vars (parameters cfg)"
  "state_vars_dict (derived_graph cfg sv a1 a2 a3 a4 a5 pe) =
     state_vars_dict_of (state_vars (parameters cfg)) (phase_presentation (config (parameters cfg)))"
  unfolding derived_graph_def Let_def by simp_all

lemma dg_mixture:
  "phase_frac (derived_graph cfg sv a1 a2 a3 a4 a5 pe) =
     indexed (private_phase_list (parameters cfg)) (rule_phase_frac (as_expr ''vapor_frac'' (sv_vapor_frac sv)))"
  "dens_mol_phase (derived_graph cfg sv a1 a2 a3 a4 a5 pe) =
     indexed (private_phase_list (parameters cfg))
       (rule_dens_mol_phase (pe_dens_mass_phase pe) (Num (mw (parameters cfg))))"
  "dens_mass (derived_graph cfg sv a1 a2 a3 a4 a5 pe) =
     mixture_density (private_phase_list (parameters cfg))
       (phase_frac (derived_graph cfg sv a1 a2 a3 a4 a5 pe))
       (dens_mass_phase (derived_graph cfg sv a1 a2 a3 a4 a5 pe))"
  "dens_mol (derived_graph cfg sv a1 a2 a3 a4 a5 pe) =
     mixture_density (private_phase_list (parameters cfg))
       (phase_frac (derived_graph cfg sv a1 a2 a3 a4 a5 pe))
       (dens_mol_phase (derived_graph cfg sv a1 a2 a3 a4 a5 pe))"
  unfolding derived_graph_def Let_def by simp_all

lemma dg_enth_mol:
  "enth_mol (derived_graph cfg sv a1 a2 a3 a4 a5 pe) =
     (case sv_enth_mol sv of
        Some c \<Rightarrow> c
      | None \<Rightarrow>
          ExprC (mixture_sum (private_phase_list (parameters cfg))
                   (indexed (private_phase_list (parameters cfg))
                      (rule_phase_frac (as_expr ''vapor_frac'' (sv_vapor_frac sv))))
                   (indexed (private_phase_list (parameters cfg))
                      (rule_mol_phase ''h'' (Num (mw (parameters cfg))) (pe_dens_phase_red pe) a4))))"
  unfolding derived_graph_def Let_def by simp

lemma dg_terms:
  "material_flow_terms (derived_graph cfg sv a1 a2 a3 a4 a5 pe) =
     term_entries (phase_list (parameters cfg))
       (rule_material_flow_terms (as_expr ''flow_mol'' (sv_flow_mol sv))
          (phase_frac (derived_graph cfg sv a1 a2 a3 a4 a5 pe)))"
  "enthalpy_flow_terms (derived_graph cfg sv a1 a2 a3 a4 a5 pe) =
     term_entries (phase_list (parameters cfg))
       (rule_enthalpy_flow_terms (as_expr ''flow_mol'' (sv_flow_mol sv))
          (as_expr ''enth_mol'' (enth_mol (derived_graph cfg sv a1 a2 a3 a4 a5 pe)))
          (enth_mol_phase (derived_graph cfg sv a1 a2 a3 a4 a5 pe))
          (phase_frac (derived_graph cfg sv a1 a2 a3 a4 a5 pe)))"
  "energy_density_terms (derived_graph cfg sv a1 a2 a3 a4 a5 pe) =
     term_entries (phase_list (parameters cfg))
       (rule_energy_density_terms (as_expr ''flow_mol'' (sv_flow_mol sv))
          (dens_mol (derived_graph cfg sv a1 a2 a3 a4 a5 pe))
          (energy_internal_mol (derived_graph cfg sv a1 a2 a3 a4 a5 pe))
          (dens_mol_phase (derived_graph cfg sv a1 a2 a3 a4 a5 pe))
          (energy_internal_mol_phase (derived_graph cfg sv a1 a2 a3 a4 a5 pe)))"
  "scaling_expression (derived_graph cfg sv a1 a2 a3 a4 a5 pe) =
     pe_scaling_expression pe
     @ scaling_entries ''material_flow_terms'' (phase_list (parameters cfg))
         (rule_material_flow_terms (as_expr ''flow_mol'' (sv_flow_mol sv))
            (phase_frac (derived_graph cfg sv a1 a2 a3 a4 a5 pe)))
     @ scaling_entries ''enthalpy_flow_terms'' (phase_list (parameters cfg))
         (rule_enthalpy_flow_terms (as_expr ''flow_mol'' (sv_flow_mol sv))
            (as_expr ''enth_mol'' (enth_mol (derived_graph cfg sv a1 a2 a3 a4 a5 pe)))
            (enth_mol_phase (derived_graph cfg sv a1 a2 a3 a4 a5 pe))
            (phase_frac (derived_graph cfg sv a1 a2 a3 a4 a5 pe)))
     @ scaling_entries ''energy_density_terms'' (phase_list (parameters cfg))
         (rule_energy_density_terms (as_expr ''flow_mol'' (sv_flow_mol sv))
            (dens_mol (derived_graph cfg sv a1 a2 a3 a4 a5 pe))
            (energy_internal_mol (derived_graph cfg sv a1 a2 a3 a4 a5 pe))
            (dens_mol_phase (derived_graph cfg sv a1 a2 a3 a4 a5 pe))
            (energy_internal_mol_phase (derived_graph cfg sv a1 a2 a3 a4 a5 pe)))"
  unfolding derived_graph_def Let_def by simp_all


lemmas build_defs = state_block_def build_def dg_fields state_vars_build_def tpx_phase_eq_def
  ph_phase_densities_def new_var_def as_expr_def fix_to_def Let_def

text \<open>
  The build succeeds in every mode. Its result is the derived graph over the state
  variables and the phase step; the scaling entries of the phase step belong to scalar
  components, and in TPX mode the vapor fraction is still a variable after that step.
\<close>

lemma build_shape:
  "\<exists>a1 a2 a3 a4 a5 pe.
     state_block pp sv ds avail inp =
       Inr (derived_graph \<lparr>parameters = configure pp sv avail inp, defined_state = ds\<rparr>
              (state_vars_build (configure pp sv avail inp)) a1 a2 a3 a4 a5 pe)
     \<and> scalar_keys (pe_scaling_expression pe)
     \<and> (sv = TPX \<longrightarrow> is_var (pe_vapor_frac pe))"
proof (cases sv)
  case PH
  show ?thesis
    unfolding PH state_block_def build_def Let_def
    apply simp
    apply (intro exI conjI)
     apply (rule refl)
    apply (simp add: ph_phase_densities_def scalar_keys_def Let_def)
    done
next
  case TPX
  have vf: "sv_vapor_frac (state_vars_build (configure pp TPX avail inp)) = VarC \<lparr>val = 0, fixed = False\<rparr>"
    by (simp add: state_vars_build_def new_var_def)
  have "\<exists>pe. tpx_phase_eq cfg pc ps (VarC v) t = Inr pe \<and> scalar_keys (pe_scaling_expression pe)
          \<and> is_var (pe_vapor_frac pe)"
    for cfg pc ps v t
    by (simp add: tpx_phase_eq_def fix_to_def Let_def scalar_keys_def is_var_def)
  then obtain pe where
    pe: "tpx_phase_eq \<lparr>parameters = configure pp TPX avail inp, defined_state = ds\<rparr>
           (sv_pressure (state_vars_build (configure pp TPX avail inp)))
           (Mul (Num 1000) (Ext1 ''p_sat'' (Div (Num (temperature_crit (configure pp TPX avail inp)))
              (as_expr ''temperature'' (sv_temperature (state_vars_build (configure pp TPX avail inp)))))))
           (sv_vapor_frac (state_vars_build (configure pp TPX avail inp)))
           (Div (Num (temperature_crit (configure pp TPX avail inp)))
              (as_expr ''temperature'' (sv_temperature (state_vars_build (configure pp TPX avail inp)))))
         = Inr pe"
    and sk: "scalar_keys (pe_scaling_expression pe)"
    and iv: "is_var (pe_vapor_frac pe)"
    unfolding vf by blast
  show ?thesis
    unfolding TPX state_block_def build_def Let_def
    using sk iv by (simp add: pe del: configure_constants) blast
qed

section \<open>The phase lists\<close>

text \<open>
  Claim C4. For every phase presentation and every state variable set, the private phase
  list of the configured parameter block has exactly the two elements \<open>Liq\<close> and \<open>Vap\<close>,
  and the public phase list is \<open>{Mix}\<close>, \<open>{Vap, Liq}\<close>, \<open>{Liq}\<close> or \<open>{Vap}\<close> for the
  presentation \<open>MIX\<close>, \<open>LG\<close>, \<open>L\<close> or \<open>G\<close>.
\<close>

theorem phase_lists_of_configure:
  "private_phase_list (configure pp sv avail inp) = [''Vap'', ''Liq'']
   \<and> set (private_phase_list (configure pp sv avail inp)) = {''Liq'', ''Vap''}
   \<and> set (phase_list (configure pp sv avail inp)) =
       (case pp of
          MIX \<Rightarrow> {''Mix''}
        | LG \<Rightarrow> {''Vap'', ''Liq''}
        | L \<Rightarrow> {''Liq''}
        | G \<Rightarrow> {''Vap''})"
  by (cases pp) auto

section \<open>The dictionary of state variables\<close>

text \<open>
  Claim C8. The dictionary returned by \<^verbatim>\<open>define_state_vars\<close> has the keys \<open>flow_mol\<close>,
  \<open>enth_mol\<close>, \<open>pressure\<close> in PH mode; \<open>flow_mol\<close>, \<open>temperature\<close>, \<open>pressure\<close>,
  \<open>vapor_frac\<close> in TPX mode with the presentation \<open>MIX\<close> or \<open>LG\<close>; and \<open>flow_mol\<close>,
  \<open>temperature\<close>, \<open>pressure\<close> in TPX mode with the presentation \<open>L\<close> or \<open>G\<close>. The build
  succeeds in every mode and no key occurs twice.
\<close>

theorem define_state_vars_keys:
  "\<exists>b. state_block pp sv ds avail inp = Inr b
     \<and> distinct (map fst (define_state_vars b))
     \<and> set (map fst (define_state_vars b)) =
        (case sv of
           PH \<Rightarrow> {''flow_mol'', ''enth_mol'', ''pressure''}
         | TPX \<Rightarrow>
            (case pp of
               MIX \<Rightarrow> {''flow_mol'', ''temperature'', ''pressure'', ''vapor_frac''}
             | LG \<Rightarrow> {''flow_mol'', ''temperature'', ''pressure'', ''vapor_frac''}
             | L \<Rightarrow> {''flow_mol'', ''temperature'', ''pressure''}
             | G \<Rightarrow> {''flow_mol'', ''temperature'', ''pressure''}))"
  by (cases sv; cases pp) (simp_all add: build_defs define_state_vars_def state_vars_dict_of_def)

section \<open>Single-phase presentations\<close>

text \<open>
  Claim C5. With the presentation \<open>L\<close> the built block holds the vapor fraction at \<open>0\<close>, with
  \<open>G\<close> at \<open>1\<close>: in TPX mode as a variable fixed at that value, in PH mode as the constant
  expression. In none of the four cases a complementarity constraint is built.
\<close>

theorem single_phase_vapor_frac:
  "(\<exists>b. state_block L TPX ds avail inp = Inr b
      \<and> vapor_frac b = VarC \<lparr>val = 0, fixed = True\<rparr> \<and> eq_complementarity b = None)
   \<and> (\<exists>b. state_block G TPX ds avail inp = Inr b
      \<and> vapor_frac b = VarC \<lparr>val = 1, fixed = True\<rparr> \<and> eq_complementarity b = None)
   \<and> (\<exists>b. state_block L PH ds avail inp = Inr b
      \<and> vapor_frac b = ExprC (Num 0) \<and> eq_complementarity b = None)
   \<and> (\<exists>b. state_block G PH ds avail inp = Inr b
      \<and> vapor_frac b = ExprC (Num 1) \<and> eq_complementarity b = None)"
  by (simp add: build_defs)

section \<open>The complementarity constraint\<close>

text \<open>
  Claim C1. In TPX mode the build creates the complementarity constraint
  \<open>0 = vapor_frac * P_over_sat - (1 - vapor_frac) * P_under_sat\<close> exactly when the public
  phase list contains both \<open>Liq\<close> and \<open>Vap\<close> and \<open>defined_state\<close> is false; when the public
  phase list has one element, or \<open>defined_state\<close> is true, there is no such constraint.
\<close>

theorem complementarity_built_iff:
  "\<exists>b po pu. state_block pp TPX ds avail inp = Inr b
     \<and> phase_list (parameters (block_config b)) = public_phase_list pp
     \<and> defined_state (block_config b) = ds
     \<and> P_over_sat b = Some po \<and> P_under_sat b = Some pu
     \<and> eq_complementarity b =
        (if ''Liq'' \<in> set (phase_list (parameters (block_config b)))
            \<and> ''Vap'' \<in> set (phase_list (parameters (block_config b)))
            \<and> \<not> defined_state (block_config b)
         then Some \<lparr>lhs = Num 0,
                    rhs = Sub (Mul (as_expr ''vapor_frac'' (vapor_frac b)) po)
                              (Mul (Sub (Num 1) (as_expr ''vapor_frac'' (vapor_frac b))) pu),
                    active = True\<rparr>
         else None)
     \<and> (length (phase_list (parameters (block_config b))) = 1 \<or> defined_state (block_config b)
          \<longrightarrow> eq_complementarity b = None)"
  by (cases pp) (simp_all add: build_defs)

text \<open>
  The theorem at the water inputs: the constraint is there for \<open>LG\<close> without
  \<open>defined_state\<close>, and absent for \<open>MIX\<close> and for \<open>LG\<close> with \<open>defined_state\<close>.
\<close>

theorem complementarity_built_iff_witness:
  "(\<exists>b. state_block LG TPX False True demo_inputs = Inr b \<and> eq_complementarity b \<noteq> None)
   \<and> (\<exists>b. state_block MIX TPX False True demo_inputs = Inr b \<and> eq_complementarity b = None)
   \<and> (\<exists>b. state_block LG TPX True True demo_inputs = Inr b \<and> eq_complementarity b = None)"
  using complementarity_built_iff [of LG False True demo_inputs]
    complementarity_built_iff [of MIX False True demo_inputs]
    complementarity_built_iff [of LG True True demo_inputs]
  by auto

section \<open>Phase densities at shifted pressures\<close>

text \<open>
  Claim C6. In TPX mode, for every kernel and every value of the variables (the
  temperature not zero, since \<open>tau\<close> divides by it), the liquid mass density is the
  critical density times the kernel's \<open>delta_liq\<close> at the pressure \<open>P + P_under_sat\<close>, and
  the vapor mass density is the critical density times \<open>delta_vap\<close> at
  \<open>P - P_over_sat\<close>, where \<open>P\<close> is the pressure in kPa, \<open>Psat\<close> the saturation pressure in
  kPa, \<open>P_under_sat = smooth_max(0, Psat - P, eps_under)\<close> and
  \<open>P_over_sat = smooth_max(0, P - Psat, eps_over)\<close>.
\<close>

theorem shifted_pressure_densities:
  "\<exists>b pu po. state_block pp TPX ds avail inp = Inr b
     \<and> P_under_sat b = Some pu \<and> P_over_sat b = Some po
     \<and> (\<forall>K s. s ''temperature'' \<noteq> 0 \<longrightarrow>
          (let P = s ''pressure'' / 1000;
               tau_v = temperature_crit inp / s ''temperature'';
               Psat = 1000 * ext1 K ''p_sat'' tau_v / 1000;
               Pu = smooth_max K 0 (Psat - P) (s ''smoothing_pressure_under'');
               Po = smooth_max K 0 (P - Psat) (s ''smoothing_pressure_over'')
           in value_e K s pu = Some Pu
            \<and> value_e K s po = Some Po
            \<and> value_e K s (idx (dens_mass_phase b) ''Liq'')
                = Some (dens_mass_crit inp * ext2 K ''delta_liq'' (P + Pu) tau_v)
            \<and> value_e K s (idx (dens_mass_phase b) ''Vap'')
                = Some (dens_mass_crit inp * ext2 K ''delta_vap'' (P - Po) tau_v)))"
  by (cases pp)
     (simp_all add: build_defs indexed_def idx_def tpx_rule_dens_mass_def lift2_def div_value_def)

text \<open>
  The theorem at the water inputs, at 300 K and 101325 Pa, with a kernel that adds its
  arguments and the true maximum for \<open>smooth_max\<close>: the pressure is above \<open>Psat\<close>, so the
  liquid density is taken at \<open>P\<close> and the vapor density at \<open>Psat\<close>.
\<close>

theorem shifted_pressure_densities_witness:
  "demo_store ''temperature'' \<noteq> 0
   \<and> (\<exists>b. state_block LG TPX False True demo_inputs = Inr b
        \<and> value_e demo_kernel demo_store (idx (dens_mass_phase b) ''Liq'')
            = Some (322 * (101325 / 1000 + 0 + 647096 / 300000))
        \<and> value_e demo_kernel demo_store (idx (dens_mass_phase b) ''Vap'')
            = Some (322 * (647096 / 300000 + 647096 / 300000)))"
proof -
  obtain b where b: "state_block LG TPX False True demo_inputs = Inr b"
    and v: "\<And>K s. s ''temperature'' \<noteq> 0 \<Longrightarrow>
       value_e K s (idx (dens_mass_phase b) ''Liq'')
         = Some (dens_mass_crit demo_inputs * ext2 K ''delta_liq''
             (s ''pressure'' / 1000 + smooth_max K 0
                (1000 * ext1 K ''p_sat'' (temperature_crit demo_inputs / s ''temperature'') / 1000
                   - s ''pressure'' / 1000) (s ''smoothing_pressure_under''))
             (temperature_crit demo_inputs / s ''temperature''))
       \<and> value_e K s (idx (dens_mass_phase b) ''Vap'')
         = Some (dens_mass_crit demo_inputs * ext2 K ''delta_vap''
             (s ''pressure'' / 1000 - smooth_max K 0
                (s ''pressure'' / 1000
                   - 1000 * ext1 K ''p_sat'' (temperature_crit demo_inputs / s ''temperature'') / 1000)
                (s ''smoothing_pressure_over''))
             (temperature_crit demo_inputs / s ''temperature''))"
    using shifted_pressure_densities [of LG False True demo_inputs]
    unfolding Let_def by blast
  have t: "demo_store ''temperature'' \<noteq> 0"
    by (simp add: demo_store_def)
  from v [of demo_store demo_kernel, OF t] b t show ?thesis
    by (simp add: demo_kernel_def demo_inputs_def demo_store_def)
qed

section \<open>Mixture densities\<close>

lemma value_phase_frac:
  assumes "value_e K s vf = Some x"
  shows "value_e K s (idx (indexed [''Vap'', ''Liq''] (rule_phase_frac vf)) ''Vap'') = Some x"
    and "value_e K s (idx (indexed [''Vap'', ''Liq''] (rule_phase_frac vf)) ''Liq'') = Some (1 - x)"
  using assms by (simp_all add: indexed_def idx_def rule_phase_frac_def lift2_def)

lemma value_mixture_density:
  assumes "value_e K s (idx pf ''Vap'') = Some x" and "value_e K s (idx pf ''Liq'') = Some y"
    and "value_e K s (idx d ''Vap'') = Some rV" and "value_e K s (idx d ''Liq'') = Some rL"
    and "rV \<noteq> 0" and "rL \<noteq> 0" and "x / rV + y / rL \<noteq> 0"
  shows "value_e K s (mixture_density [''Vap'', ''Liq''] pf d) = Some (1 / (x / rV + y / rL))"
  using assms by (simp add: mixture_density_def py_sum_def lift2_def div_value_def)

text \<open>The block that a build returns, for the facts that hold in every mode.\<close>

lemma build_mixture:
  "\<exists>b. state_block pp sv ds avail inp = Inr b
     \<and> phase_frac b = indexed [''Vap'', ''Liq''] (rule_phase_frac (as_expr ''vapor_frac'' (vapor_frac b)))
     \<and> dens_mol b = mixture_density [''Vap'', ''Liq''] (phase_frac b) (dens_mol_phase b)
     \<and> dens_mass b = mixture_density [''Vap'', ''Liq''] (phase_frac b) (dens_mass_phase b)"
  by (cases sv; cases pp) (simp_all add: build_defs dg_mixture)

text \<open>
  Claim C7, as amended. In every mode the mixture mole density and the mixture mass
  density are the reciprocal of the sum over the two phases of phase fraction divided by
  phase density, the phase fraction being the vapor fraction for \<open>Vap\<close> and one minus the
  vapor fraction for \<open>Liq\<close>: whenever the vapor fraction evaluates to \<open>x\<close> and the phase
  densities to nonzero \<open>rL\<close> and \<open>rV\<close> with a nonzero sum, the mixture density evaluates
  to \<open>1 / (x / rV + (1 - x) / rL)\<close>. With the phase mole densities 500 and 5 and the vapor
  fraction 0.3 the mixture mole density is \<open>1 / (0.3 / 5 + 0.7 / 500) = 5000 / 307\<close>, which
  is 16.29 to two decimals.
\<close>

theorem mixture_density_harmonic:
  "\<exists>b. state_block pp sv ds avail inp = Inr b
     \<and> (\<forall>K s x rL rV.
          value_e K s (as_expr ''vapor_frac'' (vapor_frac b)) = Some x
          \<and> value_e K s (idx (dens_mol_phase b) ''Liq'') = Some rL
          \<and> value_e K s (idx (dens_mol_phase b) ''Vap'') = Some rV
          \<and> rL \<noteq> 0 \<and> rV \<noteq> 0 \<and> x / rV + (1 - x) / rL \<noteq> 0
          \<longrightarrow> value_e K s (idx (phase_frac b) ''Vap'') = Some x
            \<and> value_e K s (idx (phase_frac b) ''Liq'') = Some (1 - x)
            \<and> value_e K s (dens_mol b) = Some (1 / (x / rV + (1 - x) / rL)))
     \<and> (\<forall>K s x rL rV.
          value_e K s (as_expr ''vapor_frac'' (vapor_frac b)) = Some x
          \<and> value_e K s (idx (dens_mass_phase b) ''Liq'') = Some rL
          \<and> value_e K s (idx (dens_mass_phase b) ''Vap'') = Some rV
          \<and> rL \<noteq> 0 \<and> rV \<noteq> 0 \<and> x / rV + (1 - x) / rL \<noteq> 0
          \<longrightarrow> value_e K s (dens_mass b) = Some (1 / (x / rV + (1 - x) / rL)))
     \<and> (\<forall>K s.
          value_e K s (as_expr ''vapor_frac'' (vapor_frac b)) = Some (3 / 10)
          \<and> value_e K s (idx (dens_mol_phase b) ''Liq'') = Some 500
          \<and> value_e K s (idx (dens_mol_phase b) ''Vap'') = Some 5
          \<longrightarrow> value_e K s (dens_mol b) = Some (1 / ((3 / 10) / 5 + (1 - 3 / 10) / 500))
            \<and> value_e K s (dens_mol b) = Some (5000 / 307)
            \<and> \<bar>5000 / 307 - 1629 / 100\<bar> < (1 / 200 :: real))"
proof -
  obtain b where b: "state_block pp sv ds avail inp = Inr b"
    and pf: "phase_frac b = indexed [''Vap'', ''Liq''] (rule_phase_frac (as_expr ''vapor_frac'' (vapor_frac b)))"
    and dm: "dens_mol b = mixture_density [''Vap'', ''Liq''] (phase_frac b) (dens_mol_phase b)"
    and dms: "dens_mass b = mixture_density [''Vap'', ''Liq''] (phase_frac b) (dens_mass_phase b)"
    using build_mixture [of pp sv ds avail inp] by blast
  have mol: "value_e K s (idx (phase_frac b) ''Vap'') = Some x
      \<and> value_e K s (idx (phase_frac b) ''Liq'') = Some (1 - x)
      \<and> value_e K s (dens_mol b) = Some (1 / (x / rV + (1 - x) / rL))"
    if "value_e K s (as_expr ''vapor_frac'' (vapor_frac b)) = Some x"
      and "value_e K s (idx (dens_mol_phase b) ''Liq'') = Some rL"
      and "value_e K s (idx (dens_mol_phase b) ''Vap'') = Some rV"
      and "rL \<noteq> 0" and "rV \<noteq> 0" and "x / rV + (1 - x) / rL \<noteq> 0"
    for K s x rL rV
  proof -
    have v: "value_e K s (idx (phase_frac b) ''Vap'') = Some x"
      and l: "value_e K s (idx (phase_frac b) ''Liq'') = Some (1 - x)"
      unfolding pf using value_phase_frac [OF that(1)] by simp_all
    from value_mixture_density [OF v l that(3) that(2) that(5) that(4) that(6)]
    show ?thesis using v l dm by simp
  qed
  have mass: "value_e K s (dens_mass b) = Some (1 / (x / rV + (1 - x) / rL))"
    if "value_e K s (as_expr ''vapor_frac'' (vapor_frac b)) = Some x"
      and "value_e K s (idx (dens_mass_phase b) ''Liq'') = Some rL"
      and "value_e K s (idx (dens_mass_phase b) ''Vap'') = Some rV"
      and "rL \<noteq> 0" and "rV \<noteq> 0" and "x / rV + (1 - x) / rL \<noteq> 0"
    for K s x rL rV
  proof -
    have v: "value_e K s (idx (phase_frac b) ''Vap'') = Some x"
      and l: "value_e K s (idx (phase_frac b) ''Liq'') = Some (1 - x)"
      unfolding pf using value_phase_frac [OF that(1)] by simp_all
    from value_mixture_density [OF v l that(3) that(2) that(5) that(4) that(6)]
    show ?thesis using dms by simp
  qed
  have inst: "value_e K s (dens_mol b) = Some (1 / ((3 / 10) / 5 + (1 - 3 / 10) / 500))
      \<and> value_e K s (dens_mol b) = Some (5000 / 307)
      \<and> \<bar>5000 / 307 - 1629 / 100\<bar> < (1 / 200 :: real)"
    if "value_e K s (as_expr ''vapor_frac'' (vapor_frac b)) = Some (3 / 10)"
      and "value_e K s (idx (dens_mol_phase b) ''Liq'') = Some 500"
      and "value_e K s (idx (dens_mol_phase b) ''Vap'') = Some 5"
    for K s
    using mol [OF that] by simp
  from b mol mass inst show ?thesis by blast
qed


lemma density_demo_values:
  "\<exists>b. state_block LG TPX False True demo_inputs = Inr b
     \<and> value_e density_kernel density_store (as_expr ''vapor_frac'' (vapor_frac b)) = Some (3 / 10)
     \<and> value_e density_kernel density_store (idx (dens_mol_phase b) ''Liq'') = Some 500
     \<and> value_e density_kernel density_store (idx (dens_mol_phase b) ''Vap'') = Some 5"
  by (simp add: build_defs dg_mixture indexed_def idx_def tpx_rule_dens_mass_def
        rule_dens_mol_phase_def lift2_def div_value_def demo_inputs_def density_kernel_def
        density_store_def demo_store_def)

text \<open>
  The theorem at the water inputs in TPX mode with the presentation \<open>LG\<close>, for a kernel
  and a store that give the phase mole densities 500 and 5 and the vapor fraction 0.3.
\<close>

theorem mixture_density_harmonic_witness:
  "\<exists>b. state_block LG TPX False True demo_inputs = Inr b
     \<and> value_e density_kernel density_store (as_expr ''vapor_frac'' (vapor_frac b)) = Some (3 / 10)
     \<and> value_e density_kernel density_store (idx (dens_mol_phase b) ''Liq'') = Some 500
     \<and> value_e density_kernel density_store (idx (dens_mol_phase b) ''Vap'') = Some 5
     \<and> value_e density_kernel density_store (dens_mol b) = Some (5000 / 307)"
proof -
  obtain b where b: "state_block LG TPX False True demo_inputs = Inr b"
    and x: "value_e density_kernel density_store (as_expr ''vapor_frac'' (vapor_frac b)) = Some (3 / 10)"
    and l: "value_e density_kernel density_store (idx (dens_mol_phase b) ''Liq'') = Some 500"
    and v: "value_e density_kernel density_store (idx (dens_mol_phase b) ''Vap'') = Some 5"
    using density_demo_values by blast
  from mixture_density_harmonic [of LG TPX False True demo_inputs] b
  have "\<forall>K s. value_e K s (as_expr ''vapor_frac'' (vapor_frac b)) = Some (3 / 10)
          \<and> value_e K s (idx (dens_mol_phase b) ''Liq'') = Some 500
          \<and> value_e K s (idx (dens_mol_phase b) ''Vap'') = Some 5
          \<longrightarrow> value_e K s (dens_mol b) = Some (5000 / 307)"
    by auto
  with x l v have "value_e density_kernel density_store (dens_mol b) = Some (5000 / 307)"
    by blast
  with b x l v show ?thesis by blast
qed

text \<open>
  Claim C7 as stated gives the value of this instance as about 16.39. At the same inputs
  the code's mixture mole density is \<open>1 / (0.3 / 5 + 0.7 / 500)\<close>, which is further than
  0.005 from 16.39.
\<close>

theorem mixture_density_counterexample:
  "\<exists>b. state_block LG TPX False True demo_inputs = Inr b
     \<and> value_e density_kernel density_store (as_expr ''vapor_frac'' (vapor_frac b)) = Some (3 / 10)
     \<and> value_e density_kernel density_store (idx (dens_mol_phase b) ''Liq'') = Some 500
     \<and> value_e density_kernel density_store (idx (dens_mol_phase b) ''Vap'') = Some 5
     \<and> value_e density_kernel density_store (dens_mol b) = Some (1 / ((3 / 10) / 5 + (7 / 10) / 500))
     \<and> \<not> \<bar>1 / ((3 / 10) / 5 + (7 / 10) / 500) - 1639 / 100\<bar> \<le> (1 / 200 :: real)"
  by (simp add: build_defs dg_mixture indexed_def idx_def tpx_rule_dens_mass_def
        rule_dens_mol_phase_def rule_phase_frac_def mixture_density_def py_sum_def
        lift2_def div_value_def demo_inputs_def density_kernel_def
        density_store_def demo_store_def)

section \<open>Scaling of the balance terms\<close>

lemma idx_term_entries:
  "p \<in> set ps \<Longrightarrow> idx (term_entries ps r) p = snd (r p)"
  by (induction ps) (auto simp: term_entries_def indexed_def idx_def)

lemma map_of_scaling_entries:
  "p \<in> set ps \<Longrightarrow> map_of (scaling_entries n ps r) (Indexed n p) = Some (fst (r p))"
  by (induction ps) (auto simp: scaling_entries_def)

lemma map_of_scaling_entries_other:
  "n \<noteq> m \<Longrightarrow> map_of (scaling_entries m ps r) (Indexed n p) = None"
  by (induction ps) (auto simp: scaling_entries_def)

lemma map_of_scalar_keys:
  "scalar_keys xs \<Longrightarrow> map_of xs (Indexed n p) = None"
  by (induction xs) (auto simp: scalar_keys_def split: comp_key.splits)

lemma build_terms:
  "\<exists>b pre. state_block pp sv ds avail inp = Inr b
     \<and> phase_list (parameters (block_config b)) = public_phase_list pp
     \<and> material_flow_terms b =
         term_entries (public_phase_list pp)
           (rule_material_flow_terms (as_expr ''flow_mol'' (flow_mol b)) (phase_frac b))
     \<and> enthalpy_flow_terms b =
         term_entries (public_phase_list pp)
           (rule_enthalpy_flow_terms (as_expr ''flow_mol'' (flow_mol b))
              (as_expr ''enth_mol'' (enth_mol b)) (enth_mol_phase b) (phase_frac b))
     \<and> energy_density_terms b =
         term_entries (public_phase_list pp)
           (rule_energy_density_terms (as_expr ''flow_mol'' (flow_mol b)) (dens_mol b)
              (energy_internal_mol b) (dens_mol_phase b) (energy_internal_mol_phase b))
     \<and> scalar_keys pre
     \<and> scaling_expression b =
         pre
         @ scaling_entries ''material_flow_terms'' (public_phase_list pp)
             (rule_material_flow_terms (as_expr ''flow_mol'' (flow_mol b)) (phase_frac b))
         @ scaling_entries ''enthalpy_flow_terms'' (public_phase_list pp)
             (rule_enthalpy_flow_terms (as_expr ''flow_mol'' (flow_mol b))
                (as_expr ''enth_mol'' (enth_mol b)) (enth_mol_phase b) (phase_frac b))
         @ scaling_entries ''energy_density_terms'' (public_phase_list pp)
             (rule_energy_density_terms (as_expr ''flow_mol'' (flow_mol b)) (dens_mol b)
                (energy_internal_mol b) (dens_mol_phase b) (energy_internal_mol_phase b))"
proof -
  obtain a1 a2 a3 a4 a5 pe where
    "state_block pp sv ds avail inp =
       Inr (derived_graph \<lparr>parameters = configure pp sv avail inp, defined_state = ds\<rparr>
              (state_vars_build (configure pp sv avail inp)) a1 a2 a3 a4 a5 pe)"
    and "scalar_keys (pe_scaling_expression pe)"
    using build_shape [of pp sv ds avail inp] by blast
  then show ?thesis
    by (simp add: dg_fields dg_terms)
qed

text \<open>
  Claim C9, as amended. For every public phase label \<open>p\<close>: the enthalpy flow term is
  \<open>enth_mol * flow_mol\<close> for \<open>Mix\<close> and \<open>enth_mol_phase[p] * phase_frac[p] * flow_mol\<close>
  otherwise, and its scaling expression is one divided by that very term; the material
  flow term is \<open>flow_mol\<close> for \<open>Mix\<close> and \<open>flow_mol * phase_frac[p]\<close> otherwise, and its
  scaling expression is \<open>1 / flow_mol\<close> for every label; for a label other than \<open>Mix\<close> the
  energy density term is \<open>dens_mol_phase[p] * energy_internal_mol_phase[p]\<close> and its scaling
  expression is one divided by that very term. No scaling expression of an enthalpy or
  material flow term is a constant.
\<close>

theorem balance_term_scaling:
  "\<exists>b. state_block pp sv ds avail inp = Inr b
     \<and> (\<forall>p \<in> set (phase_list (parameters (block_config b))).
          map_of (scaling_expression b) (Indexed ''enthalpy_flow_terms'' p)
            = Some (Div (Num 1) (idx (enthalpy_flow_terms b) p))
        \<and> idx (enthalpy_flow_terms b) p =
            (if p = ''Mix'' then Mul (as_expr ''enth_mol'' (enth_mol b)) (as_expr ''flow_mol'' (flow_mol b))
             else Mul (Mul (idx (enth_mol_phase b) p) (idx (phase_frac b) p))
                    (as_expr ''flow_mol'' (flow_mol b)))
        \<and> map_of (scaling_expression b) (Indexed ''material_flow_terms'' p)
            = Some (Div (Num 1) (as_expr ''flow_mol'' (flow_mol b)))
        \<and> idx (material_flow_terms b) p =
            (if p = ''Mix'' then as_expr ''flow_mol'' (flow_mol b)
             else Mul (as_expr ''flow_mol'' (flow_mol b)) (idx (phase_frac b) p))
        \<and> (p \<noteq> ''Mix'' \<longrightarrow>
             map_of (scaling_expression b) (Indexed ''energy_density_terms'' p)
               = Some (Div (Num 1) (idx (energy_density_terms b) p))
             \<and> idx (energy_density_terms b) p =
                 Mul (idx (dens_mol_phase b) p) (idx (energy_internal_mol_phase b) p))
        \<and> (\<forall>c. map_of (scaling_expression b) (Indexed ''enthalpy_flow_terms'' p) \<noteq> Some (Num c))
        \<and> (\<forall>c. map_of (scaling_expression b) (Indexed ''material_flow_terms'' p) \<noteq> Some (Num c)))"
proof -
  obtain b pre where b: "state_block pp sv ds avail inp = Inr b"
    and pl: "phase_list (parameters (block_config b)) = public_phase_list pp"
    and m: "material_flow_terms b =
         term_entries (public_phase_list pp)
           (rule_material_flow_terms (as_expr ''flow_mol'' (flow_mol b)) (phase_frac b))"
    and h: "enthalpy_flow_terms b =
         term_entries (public_phase_list pp)
           (rule_enthalpy_flow_terms (as_expr ''flow_mol'' (flow_mol b))
              (as_expr ''enth_mol'' (enth_mol b)) (enth_mol_phase b) (phase_frac b))"
    and e: "energy_density_terms b =
         term_entries (public_phase_list pp)
           (rule_energy_density_terms (as_expr ''flow_mol'' (flow_mol b)) (dens_mol b)
              (energy_internal_mol b) (dens_mol_phase b) (energy_internal_mol_phase b))"
    and pre: "scalar_keys pre"
    and sc: "scaling_expression b =
         pre
         @ scaling_entries ''material_flow_terms'' (public_phase_list pp)
             (rule_material_flow_terms (as_expr ''flow_mol'' (flow_mol b)) (phase_frac b))
         @ scaling_entries ''enthalpy_flow_terms'' (public_phase_list pp)
             (rule_enthalpy_flow_terms (as_expr ''flow_mol'' (flow_mol b))
                (as_expr ''enth_mol'' (enth_mol b)) (enth_mol_phase b) (phase_frac b))
         @ scaling_entries ''energy_density_terms'' (public_phase_list pp)
             (rule_energy_density_terms (as_expr ''flow_mol'' (flow_mol b)) (dens_mol b)
                (energy_internal_mol b) (dens_mol_phase b) (energy_internal_mol_phase b))"
    using build_terms [of pp sv ds avail inp] by blast
  have "map_of (scaling_expression b) (Indexed ''enthalpy_flow_terms'' p)
            = Some (Div (Num 1) (idx (enthalpy_flow_terms b) p))
        \<and> idx (enthalpy_flow_terms b) p =
            (if p = ''Mix'' then Mul (as_expr ''enth_mol'' (enth_mol b)) (as_expr ''flow_mol'' (flow_mol b))
             else Mul (Mul (idx (enth_mol_phase b) p) (idx (phase_frac b) p))
                    (as_expr ''flow_mol'' (flow_mol b)))
        \<and> map_of (scaling_expression b) (Indexed ''material_flow_terms'' p)
            = Some (Div (Num 1) (as_expr ''flow_mol'' (flow_mol b)))
        \<and> idx (material_flow_terms b) p =
            (if p = ''Mix'' then as_expr ''flow_mol'' (flow_mol b)
             else Mul (as_expr ''flow_mol'' (flow_mol b)) (idx (phase_frac b) p))
        \<and> (p \<noteq> ''Mix'' \<longrightarrow>
             map_of (scaling_expression b) (Indexed ''energy_density_terms'' p)
               = Some (Div (Num 1) (idx (energy_density_terms b) p))
             \<and> idx (energy_density_terms b) p =
                 Mul (idx (dens_mol_phase b) p) (idx (energy_internal_mol_phase b) p))
        \<and> (\<forall>c. map_of (scaling_expression b) (Indexed ''enthalpy_flow_terms'' p) \<noteq> Some (Num c))
        \<and> (\<forall>c. map_of (scaling_expression b) (Indexed ''material_flow_terms'' p) \<noteq> Some (Num c))"
    if p: "p \<in> set (public_phase_list pp)" for p
    unfolding sc m h e
    using p pre
    by (simp add: map_add_def map_of_scalar_keys map_of_scaling_entries
          map_of_scaling_entries_other idx_term_entries rule_material_flow_terms_def
          rule_enthalpy_flow_terms_def rule_energy_density_terms_def)
  with b pl show ?thesis by auto
qed

text \<open>
  The theorem at the water inputs in PH mode with the presentation \<open>LG\<close>, for the label
  \<open>Vap\<close>.
\<close>

theorem balance_term_scaling_witness:
  "''Vap'' \<in> set (public_phase_list LG)
   \<and> (\<exists>b. state_block LG PH False True demo_inputs = Inr b
        \<and> phase_list (parameters (block_config b)) = public_phase_list LG
        \<and> map_of (scaling_expression b) (Indexed ''enthalpy_flow_terms'' ''Vap'')
            = Some (Div (Num 1) (idx (enthalpy_flow_terms b) ''Vap''))
        \<and> map_of (scaling_expression b) (Indexed ''energy_density_terms'' ''Vap'')
            = Some (Div (Num 1) (idx (energy_density_terms b) ''Vap''))
        \<and> map_of (scaling_expression b) (Indexed ''material_flow_terms'' ''Vap'')
            = Some (Div (Num 1) (VarRef ''flow_mol'')))"
proof -
  obtain b where b: "state_block LG PH False True demo_inputs = Inr b"
    and s: "\<forall>p \<in> set (phase_list (parameters (block_config b))).
          map_of (scaling_expression b) (Indexed ''enthalpy_flow_terms'' p)
            = Some (Div (Num 1) (idx (enthalpy_flow_terms b) p))
        \<and> idx (enthalpy_flow_terms b) p =
            (if p = ''Mix'' then Mul (as_expr ''enth_mol'' (enth_mol b)) (as_expr ''flow_mol'' (flow_mol b))
             else Mul (Mul (idx (enth_mol_phase b) p) (idx (phase_frac b) p))
                    (as_expr ''flow_mol'' (flow_mol b)))
        \<and> map_of (scaling_expression b) (Indexed ''material_flow_terms'' p)
            = Some (Div (Num 1) (as_expr ''flow_mol'' (flow_mol b)))
        \<and> idx (material_flow_terms b) p =
            (if p = ''Mix'' then as_expr ''flow_mol'' (flow_mol b)
             else Mul (as_expr ''flow_mol'' (flow_mol b)) (idx (phase_frac b) p))
        \<and> (p \<noteq> ''Mix'' \<longrightarrow>
             map_of (scaling_expression b) (Indexed ''energy_density_terms'' p)
               = Some (Div (Num 1) (idx (energy_density_terms b) p))
             \<and> idx (energy_density_terms b) p =
                 Mul (idx (dens_mol_phase b) p) (idx (energy_internal_mol_phase b) p))
        \<and> (\<forall>c. map_of (scaling_expression b) (Indexed ''enthalpy_flow_terms'' p) \<noteq> Some (Num c))
        \<and> (\<forall>c. map_of (scaling_expression b) (Indexed ''material_flow_terms'' p) \<noteq> Some (Num c))"
    using balance_term_scaling [of LG PH False True demo_inputs] by blast
  have pl: "phase_list (parameters (block_config b)) = public_phase_list LG"
    and fl: "as_expr ''flow_mol'' (flow_mol b) = VarRef ''flow_mol''"
    using b by (auto simp: build_defs)
  have "''Vap'' \<in> set (phase_list (parameters (block_config b)))"
    unfolding pl by simp
  with s have "map_of (scaling_expression b) (Indexed ''enthalpy_flow_terms'' ''Vap'')
            = Some (Div (Num 1) (idx (enthalpy_flow_terms b) ''Vap''))
        \<and> map_of (scaling_expression b) (Indexed ''energy_density_terms'' ''Vap'')
            = Some (Div (Num 1) (idx (energy_density_terms b) ''Vap''))
        \<and> map_of (scaling_expression b) (Indexed ''material_flow_terms'' ''Vap'')
            = Some (Div (Num 1) (as_expr ''flow_mol'' (flow_mol b)))"
    by fastforce
  with b pl fl show ?thesis by simp
qed


text \<open>
  Claim C9 as stated asks that every term is scaled by its own reciprocal. With the
  presentation \<open>LG\<close> in TPX mode, at a molar flow of 2 and a vapor fraction of 1/4, the
  material flow term of \<open>Vap\<close> has the value 1/2 and its scaling expression has the value
  1/2, not 2.
\<close>

theorem balance_term_scaling_counterexample:
  "\<exists>b t sc. state_block LG TPX False True demo_inputs = Inr b
     \<and> ''Vap'' \<in> set (phase_list (parameters (block_config b)))
     \<and> idx (material_flow_terms b) ''Vap'' = t
     \<and> map_of (scaling_expression b) (Indexed ''material_flow_terms'' ''Vap'') = Some sc
     \<and> value_e demo_kernel demo_store t = Some (1 / 2)
     \<and> value_e demo_kernel demo_store sc = Some (1 / 2)
     \<and> (1 / 2 :: real) \<noteq> 1 / (1 / 2)"
  by (simp add: build_defs dg_mixture dg_terms term_entries_def scaling_entries_def
        indexed_def idx_def rule_material_flow_terms_def rule_phase_frac_def
        lift2_def div_value_def demo_store_def)


text \<open>
  With the presentation \<open>MIX\<close> the energy density term is \<open>dens_mol * energy_internal_mol\<close>
  and the scaling expression stored for it is \<open>1 / (energy_internal_mol * flow_mol)\<close>.
\<close>

lemma energy_density_terms_Mix:
  "\<exists>b. state_block MIX sv ds avail inp = Inr b
     \<and> idx (energy_density_terms b) ''Mix'' = Mul (dens_mol b) (energy_internal_mol b)
     \<and> map_of (scaling_expression b) (Indexed ''energy_density_terms'' ''Mix'')
         = Some (Div (Num 1) (Mul (energy_internal_mol b) (as_expr ''flow_mol'' (flow_mol b))))"
proof -
  obtain b pre where b: "state_block MIX sv ds avail inp = Inr b"
    and e: "energy_density_terms b =
         term_entries (public_phase_list MIX)
           (rule_energy_density_terms (as_expr ''flow_mol'' (flow_mol b)) (dens_mol b)
              (energy_internal_mol b) (dens_mol_phase b) (energy_internal_mol_phase b))"
    and pre: "scalar_keys pre"
    and sc: "scaling_expression b =
         pre
         @ scaling_entries ''material_flow_terms'' (public_phase_list MIX)
             (rule_material_flow_terms (as_expr ''flow_mol'' (flow_mol b)) (phase_frac b))
         @ scaling_entries ''enthalpy_flow_terms'' (public_phase_list MIX)
             (rule_enthalpy_flow_terms (as_expr ''flow_mol'' (flow_mol b))
                (as_expr ''enth_mol'' (enth_mol b)) (enth_mol_phase b) (phase_frac b))
         @ scaling_entries ''energy_density_terms'' (public_phase_list MIX)
             (rule_energy_density_terms (as_expr ''flow_mol'' (flow_mol b)) (dens_mol b)
                (energy_internal_mol b) (dens_mol_phase b) (energy_internal_mol_phase b))"
    using build_terms [of MIX sv ds avail inp] by blast
  have "idx (energy_density_terms b) ''Mix'' = Mul (dens_mol b) (energy_internal_mol b)"
    unfolding e by (simp add: idx_term_entries rule_energy_density_terms_def)
  moreover have "map_of (scaling_expression b) (Indexed ''energy_density_terms'' ''Mix'')
         = Some (Div (Num 1) (Mul (energy_internal_mol b) (as_expr ''flow_mol'' (flow_mol b))))"
    unfolding sc using pre
    by (simp add: map_add_def map_of_scalar_keys map_of_scaling_entries
          map_of_scaling_entries_other rule_energy_density_terms_def)
  ultimately show ?thesis using b by blast
qed

section \<open>The argument checks and the branch of \<^verbatim>\<open>_htpx\<close>\<close>

text \<open>
  Claim C3. \<^verbatim>\<open>_htpx\<close> raises \<^verbatim>\<open>ConfigurationError\<close> if and only if both or neither of \<open>P\<close>
  and \<open>x\<close> are given, or \<open>T\<close> lies outside \<open>[Tmin, Tmax]\<close>, or a given \<open>P\<close> lies outside
  \<open>[Pmin, Pmax]\<close>, or a given \<open>x\<close> lies outside \<open>[0, 1]\<close>. With the default bounds,
  \<open>T = 372\<close> with \<open>P = 101325\<close> alone or with \<open>x = 0.5\<close> alone passes the checks;
  \<open>T = 1300\<close> with \<open>P = 101325\<close> fails, \<open>T = 372\<close> with \<open>x = 1.5\<close> fails, and so do
  \<open>T = 372\<close> with both or with neither.
\<close>

theorem htpx_configuration_error_iff:
  "(htpx K prop T P x Tmin Tmax Pmin Pmax = Inl ConfigurationError \<longleftrightarrow>
      ((P = None) = (x = None))
      \<or> T < Tmin \<or> Tmax < T
      \<or> (\<exists>p. P = Some p \<and> (p < Pmin \<or> Pmax < p))
      \<or> (\<exists>v. x = Some v \<and> (v < 0 \<or> 1 < v)))
   \<and> htpx_default K prop 372 (Some 101325) None \<noteq> Inl ConfigurationError
   \<and> htpx_default K prop 372 None (Some (1 / 2)) \<noteq> Inl ConfigurationError
   \<and> htpx_default K prop 1300 (Some 101325) None = Inl ConfigurationError
   \<and> htpx_default K prop 372 None (Some (3 / 2)) = Inl ConfigurationError
   \<and> htpx_default K prop 372 (Some 101325) (Some (1 / 2)) = Inl ConfigurationError
   \<and> htpx_default K prop 372 None None = Inl ConfigurationError"
proof -
  have gen: "htpx K prop T P x Tmin Tmax Pmin Pmax = Inl ConfigurationError \<longleftrightarrow>
      ((P = None) = (x = None))
      \<or> T < Tmin \<or> Tmax < T
      \<or> (\<exists>p. P = Some p \<and> (p < Pmin \<or> Pmax < p))
      \<or> (\<exists>v. x = Some v \<and> (v < 0 \<or> 1 < v))"
    for T P x Tmin Tmax Pmin Pmax
    by (cases P; cases x; cases "prop")
       (auto simp: htpx_def Let_def not_le)
  have "htpx_default K prop 372 (Some 101325) None \<noteq> Inl ConfigurationError"
    and "htpx_default K prop 372 None (Some (1 / 2)) \<noteq> Inl ConfigurationError"
    and "htpx_default K prop 1300 (Some 101325) None = Inl ConfigurationError"
    and "htpx_default K prop 372 None (Some (3 / 2)) = Inl ConfigurationError"
    and "htpx_default K prop 372 (Some 101325) (Some (1 / 2)) = Inl ConfigurationError"
    and "htpx_default K prop 372 None None = Inl ConfigurationError"
    by (cases "prop"; simp add: htpx_default_def htpx_def Let_def)+
  with gen show ?thesis by blast
qed

text \<open>The theorem at a temperature above the default upper bound, and at one inside.\<close>

theorem htpx_configuration_error_iff_witness:
  "htpx demo_kernel None 1300 (Some 101325) None 200 1200 1 1000000000 = Inl ConfigurationError
   \<and> htpx demo_kernel None 372 (Some 101325) None 200 1200 1 1000000000 \<noteq> Inl ConfigurationError"
  using htpx_configuration_error_iff [of demo_kernel None 1300 "Some 101325" None 200 1200 1 1000000000]
    htpx_configuration_error_iff [of demo_kernel None 372 "Some 101325" None 200 1200 1 1000000000]
  by simp

text \<open>
  Claim C10. When the pressure is given and the checks pass, \<^verbatim>\<open>_htpx\<close> returns the liquid
  enthalpy \<open>hlpt\<close> if \<open>T\<close> is below the saturation temperature at \<open>P\<close> or \<open>P\<close> is above the
  critical pressure, and the vapor enthalpy \<open>hvpt\<close> otherwise, that is only if \<open>T\<close> is at
  or above the saturation temperature and \<open>P\<close> is at or below the critical pressure; a
  pressure above the critical pressure gives the liquid enthalpy whatever \<open>T\<close> is. (The
  two divisors, \<open>T\<close> and the value of \<open>tau_sat\<close>, are not zero.)
\<close>

theorem htpx_pressure_branch:
  assumes "Tmin \<le> T" and "T \<le> Tmax" and "Pmin \<le> p" and "p \<le> Pmax"
    and "T \<noteq> 0" and "ext1 K ''tau_sat'' (p / 1000) \<noteq> 0"
  shows "htpx K (Some b) T (Some p) None Tmin Tmax Pmin Pmax =
           Inr (if T < temperature_crit (parameters (block_config b)) / ext1 K ''tau_sat'' (p / 1000)
                   \<or> pressure_crit (parameters (block_config b)) < p
                then ext2 K ''hlpt'' (p / 1000) (temperature_crit (parameters (block_config b)) / T)
                       * mw (parameters (block_config b)) * 1000
                else ext2 K ''hvpt'' (p / 1000) (temperature_crit (parameters (block_config b)) / T)
                       * mw (parameters (block_config b)) * 1000)
         \<and> (pressure_crit (parameters (block_config b)) < p \<longrightarrow>
              htpx K (Some b) T (Some p) None Tmin Tmax Pmin Pmax =
                Inr (ext2 K ''hlpt'' (p / 1000) (temperature_crit (parameters (block_config b)) / T)
                       * mw (parameters (block_config b)) * 1000))"
  using assms by (simp add: htpx_def Let_def)

text \<open>
  The theorem for water at 372 K with the kernel that adds its arguments: at 101325 Pa
  the saturation temperature is below 372 K and the vapor enthalpy is returned; at 30 MPa,
  above the critical pressure, the liquid enthalpy is returned.
\<close>

theorem htpx_pressure_branch_witness:
  "(200::real) \<le> 372 \<and> (372::real) \<le> 1200 \<and> (1::real) \<le> 101325 \<and> (101325::real) \<le> 1000000000
   \<and> (372::real) \<noteq> 0 \<and> ext1 demo_kernel ''tau_sat'' (101325 / 1000) \<noteq> 0
   \<and> ext1 demo_kernel ''tau_sat'' (30000000 / 1000) \<noteq> 0
   \<and> (\<exists>b. state_block MIX PH False True demo_inputs = Inr b
        \<and> htpx demo_kernel (Some b) 372 (Some 101325) None 200 1200 1 1000000000
            = Inr ((101325 / 1000 + (647096 / 1000) / 372) * (1801528 / 100000000) * 1000)
        \<and> htpx demo_kernel (Some b) 372 (Some 30000000) None 200 1200 1 1000000000
            = Inr ((30000000 / 1000 + (647096 / 1000) / 372) * (1801528 / 100000000) * 1000))"
proof -
  obtain b where b: "state_block MIX PH False True demo_inputs = Inr b"
    and c: "block_config b = \<lparr>parameters = configure MIX PH True demo_inputs, defined_state = False\<rparr>"
    by (simp add: build_defs)
  have t1: "ext1 demo_kernel ''tau_sat'' (101325 / 1000) \<noteq> 0"
    and t2: "ext1 demo_kernel ''tau_sat'' (30000000 / 1000) \<noteq> 0"
    by (simp_all add: demo_kernel_def)
  have "htpx demo_kernel (Some b) 372 (Some 101325) None 200 1200 1 1000000000
            = Inr ((101325 / 1000 + (647096 / 1000) / 372) * (1801528 / 100000000) * 1000)"
    using htpx_pressure_branch [of 200 372 1200 1 101325 1000000000 demo_kernel b] t1
    by (simp add: c demo_kernel_def demo_inputs_def)
  moreover have "htpx demo_kernel (Some b) 372 (Some 30000000) None 200 1200 1 1000000000
            = Inr ((30000000 / 1000 + (647096 / 1000) / 372) * (1801528 / 100000000) * 1000)"
    using htpx_pressure_branch [of 200 372 1200 1 30000000 1000000000 demo_kernel b] t2
    by (simp add: c demo_kernel_def demo_inputs_def)
  ultimately show ?thesis using b t1 t2 by simp
qed

section \<open>Holding and releasing restores the fixed flags\<close>

text \<open>On a variable, the steps of \<^verbatim>\<open>initialize\<close> and \<^verbatim>\<open>release_state\<close> never raise.\<close>

lemma assign_state_arg_var:
  "\<exists>w'. assign_state_arg args key (VarC w) = Inr (VarC w') \<and> fixed w' = fixed w"
  by (cases args)
     (auto simp: assign_state_arg_def bind_e_def get_fixed_def set_value_def split: option.splits)

lemma set_fixed_var:
  "set_fixed (VarC w) g = Inr (VarC (w\<lparr>fixed := g\<rparr>))"
  by (cases w) (simp add: set_fixed_def fix_var_def unfix_var_def)

lemma hold_var_True:
  "hold_var True (VarC w) = Inr (VarC (w\<lparr>fixed := True\<rparr>))"
  by (simp add: hold_var_def fix_var_def)

lemma fixed_of_upd [simp]:
  "fixed_of (VarC (w\<lparr>fixed := g\<rparr>)) = Some g"
  by (simp add: fixed_of_def)

lemma is_varE:
  assumes "is_var c"
  obtains w where "c = VarC w"
  using assms by (cases c) (simp_all add: is_var_def)

lemma item_roundtrip_PH:
  assumes sv: "block_state_vars v = PH" and wf: "has_state_vars v"
  shows "\<exists>f v' v''. initialize_item args True v = Inr (f, v')
           \<and> release_item v' f = Inr v'' \<and> fixed_status v'' = fixed_status v"
proof -
  from wf sv obtain w0 w1 w2 where
    c: "flow_mol v = VarC w0" "enth_mol v = VarC w1" "pressure v = VarC w2"
    by (auto simp: has_state_vars_def elim!: is_varE)
  obtain a0 where a0: "assign_state_arg args ''flow_mol'' (VarC w0) = Inr (VarC a0)" "fixed a0 = fixed w0"
    using assign_state_arg_var by blast
  obtain a1 where a1: "assign_state_arg args ''enth_mol'' (VarC w1) = Inr (VarC a1)" "fixed a1 = fixed w1"
    using assign_state_arg_var by blast
  obtain a2 where a2: "assign_state_arg args ''pressure'' (VarC w2) = Inr (VarC a2)" "fixed a2 = fixed w2"
    using assign_state_arg_var by blast
  let ?v' = "v\<lparr>flow_mol := VarC (a0\<lparr>fixed := True\<rparr>), enth_mol := VarC (a1\<lparr>fixed := True\<rparr>),
                pressure := VarC (a2\<lparr>fixed := True\<rparr>)\<rparr>"
  let ?f = "[fixed w0, fixed w1, fixed w2]"
  have i: "initialize_item args True v = Inr (?f, ?v')"
    by (simp add: initialize_item_def sv initialize_PH_def c a0 a1 a2 bind_e_def get_fixed_def
          hold_var_True)
  have "\<exists>v''. release_item ?v' ?f = Inr v'' \<and> fixed_status v'' = fixed_status v"
    by (simp add: release_item_def sv flag_def bind_e_def set_fixed_var fixed_status_def c
          fixed_of_def)
  with i show ?thesis by blast
qed

lemma item_roundtrip_TPX:
  assumes sv: "block_state_vars v = TPX" and wf: "has_state_vars v"
  shows "\<exists>f v' v''. initialize_item args True v = Inr (f, v')
           \<and> release_item v' f = Inr v'' \<and> fixed_status v'' = fixed_status v"
proof -
  from wf sv obtain w0 w1 w2 w3 where
    c: "flow_mol v = VarC w0" "temperature v = VarC w1" "pressure v = VarC w2"
       "vapor_frac v = VarC w3"
    by (auto simp: has_state_vars_def elim!: is_varE)
  obtain a0 where a0: "assign_state_arg args ''flow_mol'' (VarC w0) = Inr (VarC a0)" "fixed a0 = fixed w0"
    using assign_state_arg_var by blast
  obtain a1 where a1: "assign_state_arg args ''temperature'' (VarC w1) = Inr (VarC a1)" "fixed a1 = fixed w1"
    using assign_state_arg_var by blast
  obtain a2 where a2: "assign_state_arg args ''pressure'' (VarC w2) = Inr (VarC a2)" "fixed a2 = fixed w2"
    using assign_state_arg_var by blast
  obtain a3 where a3: "assign_state_arg args ''vapor_frac'' (VarC w3) = Inr (VarC a3)" "fixed a3 = fixed w3"
    using assign_state_arg_var by blast
  show ?thesis
  proof (cases "phase_presentation (config (parameters (block_config v))) = MIX
                \<or> phase_presentation (config (parameters (block_config v))) = LG")
    case True
    let ?v' = "v\<lparr>flow_mol := VarC (a0\<lparr>fixed := True\<rparr>), temperature := VarC (a1\<lparr>fixed := True\<rparr>),
                  pressure := VarC (a2\<lparr>fixed := True\<rparr>), vapor_frac := VarC (a3\<lparr>fixed := True\<rparr>)\<rparr>"
    let ?f = "[fixed w0, fixed w1, fixed w2, fixed w3]"
    have i: "initialize_item args True v = Inr (?f, ?v')"
      using True
      by (simp add: initialize_item_def sv initialize_TPX4_def c a0 a1 a2 a3 bind_e_def
            get_fixed_def hold_var_True)
    have "\<exists>v''. release_item ?v' ?f = Inr v'' \<and> fixed_status v'' = fixed_status v"
      using True
      by (simp add: release_item_def sv flag_def bind_e_def set_fixed_var fixed_status_def c
            fixed_of_def)
    with i show ?thesis by blast
  next
    case False
    let ?v' = "v\<lparr>flow_mol := VarC (a0\<lparr>fixed := True\<rparr>), temperature := VarC (a1\<lparr>fixed := True\<rparr>),
                  pressure := VarC (a2\<lparr>fixed := True\<rparr>)\<rparr>"
    let ?f = "[fixed w0, fixed w1, fixed w2]"
    have i: "initialize_item args True v = Inr (?f, ?v')"
      using False
      by (simp add: initialize_item_def sv initialize_TPX3_def c a0 a1 a2 bind_e_def
            get_fixed_def hold_var_True)
    have "\<exists>v''. release_item ?v' ?f = Inr v'' \<and> fixed_status v'' = fixed_status v"
      using False
      by (simp add: release_item_def sv flag_def bind_e_def set_fixed_var fixed_status_def c
            fixed_of_def)
    with i show ?thesis by blast
  qed
qed

lemma item_roundtrip:
  "has_state_vars v \<Longrightarrow>
     \<exists>f v' v''. initialize_item args True v = Inr (f, v')
        \<and> release_item v' f = Inr v'' \<and> fixed_status v'' = fixed_status v"
  using item_roundtrip_PH [of v args] item_roundtrip_TPX [of v args]
  by (cases "block_state_vars v") blast+

lemma put_block_absent:
  "i \<notin> fst ` set blocks \<Longrightarrow> put_block i b blocks = blocks"
  by (induction blocks) (auto simp: put_block_def)

lemma put_block_middle:
  "i \<notin> fst ` set pre \<Longrightarrow> i \<notin> fst ` set rest \<Longrightarrow>
     put_block i b (pre @ (i, old) # rest) = pre @ (i, b) # rest"
  using put_block_absent [of i pre b] put_block_absent [of i rest b]
  by (simp add: put_block_def)

lemma block_at_middle:
  "i \<notin> fst ` set pre \<Longrightarrow> block_at (pre @ (i, b) # rest) i = Inr b"
  by (simp add: block_at_def map_add_def map_of_eq_None_iff [THEN iffD2])

lemma roundtrip_gen:
  assumes "\<forall>b \<in> snd ` set blocks. has_state_vars b"
    and "distinct (map fst (pre @ blocks))"
  shows "\<exists>flags held released.
           initialize args True blocks = Inr (flags, held)
           \<and> map fst held = map fst blocks
           \<and> release_state (pre @ held) flags = Inr (pre @ released)
           \<and> map fst released = map fst blocks
           \<and> map (\<lambda>(i, b). fixed_status b) released = map (\<lambda>(i, b). fixed_status b) blocks"
  using assms
proof (induction blocks arbitrary: pre)
  case Nil
  then show ?case by simp
next
  case (Cons a rest)
  obtain i v where a: "a = (i, v)" by (cases a)
  from Cons.prems(1) a have wf: "has_state_vars v"
    and wfr: "\<forall>b \<in> snd ` set rest. has_state_vars b"
    by auto
  from Cons.prems(2) a have ipre: "i \<notin> fst ` set pre" and irest: "i \<notin> fst ` set rest"
    and d: "distinct (map fst ((pre @ [(i, v)]) @ rest))"
    by auto
  obtain f v' v'' where it: "initialize_item args True v = Inr (f, v')"
    and rel: "release_item v' f = Inr v''" and fs: "fixed_status v'' = fixed_status v"
    using item_roundtrip [OF wf] by blast
  have d': "distinct (map fst ((pre @ [(i, v'')]) @ rest))"
    using d by simp
  obtain flags held released where
    ini: "initialize args True rest = Inr (flags, held)"
    and kh: "map fst held = map fst rest"
    and rs: "release_state ((pre @ [(i, v'')]) @ held) flags = Inr ((pre @ [(i, v'')]) @ released)"
    and kr: "map fst released = map fst rest"
    and st: "map (\<lambda>(i, b). fixed_status b) released = map (\<lambda>(i, b). fixed_status b) rest"
    using Cons.IH [OF wfr d'] by blast
  have iheld: "i \<notin> fst ` set held"
    using irest kh by (metis list.set_map)
  have 1: "initialize args True (a # rest) = Inr ((i, f) # flags, (i, v') # held)"
    by (simp add: a it ini bind_e_def)
  have 2: "release_state (pre @ (i, v') # held) ((i, f) # flags)
             = Inr (pre @ (i, v'') # released)"
    using rs by (simp add: block_at_middle [OF ipre] rel bind_e_def
        put_block_middle [OF ipre iheld])
  show ?case
    using 1 2 kh kr st fs by (simp add: a)
qed

text \<open>
  Claim C2. For every collection of state blocks with distinct indices, each block having
  the state variables of its mode (PH or TPX, with any phase presentation), and for any
  \<^verbatim>\<open>state_args\<close>: \<^verbatim>\<open>initialize\<close> with \<^verbatim>\<open>hold_state=True\<close> returns flags, \<^verbatim>\<open>release_state\<close>
  with these flags succeeds on the held collection, and afterwards every block has, for
  each of its state quantities, the fixed status it had before \<^verbatim>\<open>initialize\<close>.
\<close>

theorem hold_release_restores:
  assumes "distinct (map fst blocks)"
    and "\<forall>b \<in> snd ` set blocks. has_state_vars b"
  shows "\<exists>flags held released.
           initialize state_args True blocks = Inr (flags, held)
           \<and> release_state held flags = Inr released
           \<and> map fst released = map fst blocks
           \<and> map (\<lambda>(i, b). fixed_status b) released = map (\<lambda>(i, b). fixed_status b) blocks"
  using roundtrip_gen [of blocks "[]" state_args] assms by auto

text \<open>Every block that \<^verbatim>\<open>build\<close> returns has the state variables of its mode.\<close>

lemma build_has_state_vars:
  assumes "state_block pp sv ds avail inp = Inr b"
  shows "has_state_vars b"
proof -
  obtain a1 a2 a3 a4 a5 pe where
    "state_block pp sv ds avail inp =
       Inr (derived_graph \<lparr>parameters = configure pp sv avail inp, defined_state = ds\<rparr>
              (state_vars_build (configure pp sv avail inp)) a1 a2 a3 a4 a5 pe)"
    and "sv = TPX \<longrightarrow> is_var (pe_vapor_frac pe)"
    using build_shape [of pp sv ds avail inp] by blast
  with assms show ?thesis
    by (cases sv)
       (auto simp: has_state_vars_def dg_fields dg_enth_mol state_vars_build_def new_var_def
          is_var_def Let_def)
qed

text \<open>
  The theorem for a collection of two blocks for water: a PH block with the presentation
  \<open>MIX\<close>, as built, and a TPX block with the presentation \<open>LG\<close> whose pressure has been
  fixed. After holding and releasing, only that pressure is fixed again.
\<close>

theorem hold_release_restores_witness:
  "\<exists>b1 b2 flags held released.
     state_block MIX PH False True demo_inputs = Inr b1
     \<and> state_block LG TPX False True demo_inputs = Inr b2
     \<and> distinct (map fst [(0 :: nat, b1), (1, b2\<lparr>pressure := VarC \<lparr>val = 101325, fixed = True\<rparr>\<rparr>)])
     \<and> has_state_vars b1
     \<and> has_state_vars (b2\<lparr>pressure := VarC \<lparr>val = 101325, fixed = True\<rparr>\<rparr>)
     \<and> initialize None True
          [(0 :: nat, b1), (1, b2\<lparr>pressure := VarC \<lparr>val = 101325, fixed = True\<rparr>\<rparr>)]
         = Inr (flags, held)
     \<and> release_state held flags = Inr released
     \<and> map fst released = [0, 1]
     \<and> map (\<lambda>(i, b). fixed_status b) released =
         [[Some False, Some False, Some False, None, None],
          [Some False, None, Some True, Some False, Some False]]"
proof -
  obtain b1 where b1: "state_block MIX PH False True demo_inputs = Inr b1"
    and s1: "fixed_status b1 = [Some False, Some False, Some False, None, None]"
    by (simp add: build_defs dg_enth_mol fixed_status_def fixed_of_def)
  obtain b2 where b2: "state_block LG TPX False True demo_inputs = Inr b2"
    and s2: "fixed_status b2 = [Some False, None, Some False, Some False, Some False]"
    by (simp add: build_defs dg_enth_mol fixed_status_def fixed_of_def)
  let ?b2 = "b2\<lparr>pressure := VarC \<lparr>val = 101325, fixed = True\<rparr>\<rparr>"
  let ?blocks = "[(0 :: nat, b1), (1, ?b2)]"
  have w1: "has_state_vars b1" using build_has_state_vars [OF b1] .
  have w2: "has_state_vars ?b2"
    using build_has_state_vars [OF b2]
    by (auto simp: has_state_vars_def is_var_def split: StateVars.splits)
  have s2': "fixed_status ?b2 = [Some False, None, Some True, Some False, Some False]"
    using s2 by (simp add: fixed_status_def fixed_of_def)
  have d: "distinct (map fst ?blocks)" by simp
  have w: "\<forall>b \<in> snd ` set ?blocks. has_state_vars b" using w1 w2 by simp
  obtain flags held released where
    "initialize None True ?blocks = Inr (flags, held)"
    and "release_state held flags = Inr released"
    and "map fst released = map fst ?blocks"
    and "map (\<lambda>(i, b). fixed_status b) released = map (\<lambda>(i, b). fixed_status b) ?blocks"
    using hold_release_restores [OF d w, of None] by blast
  with b1 b2 w1 w2 s1 s2' show ?thesis
    by (intro exI [of _ b1] exI [of _ b2] exI [of _ flags] exI [of _ held] exI [of _ released])
       simp
qed

end
